(* ===== verification/WB_Prelude.thy ===== *)
theory WB_Prelude
  imports Main "HOL-Library.AList"
begin

text \<open>
  Shared vocabulary of the whiteboard client model: JavaScript strings as lists of
  UTF-16 code units, JavaScript values as a datatype, the two exceptions the modelled
  code can raise, and the list lemmas the component theories share.

  A JavaScript string is a sequence of 16-bit code units; \<open>jsstring\<close> is a list of
  naturals, each meant to be below \<open>65536\<close>. Source literals are written
  \<open>lit ''...''\<close>. Object property names are always ASCII literals of the source and are
  kept as HOL strings.
\<close>

section \<open>Collections of facts\<close>

named_theorems wb_defs \<open>definitions of the client model that component proofs unfold\<close>
named_theorems wb_frame \<open>fields that an operation of the client leaves unchanged\<close>

section \<open>Strings\<close>

type_synonym jschar = nat
type_synonym jsstring = "jschar list"

definition lit :: "string \<Rightarrow> jsstring" where
  "lit s = map of_char s"

lemma lit_Nil [simp]: "lit [] = []"
  by (simp add: lit_def)

text \<open>
  \<open>lit_Cons\<close> turns a literal into its code units. It is not a simplification rule:
  symbolic proofs compare literals by \<open>lit_inject\<close> and keep them readable; proofs that
  evaluate add it.
\<close>

lemma lit_Cons: "lit (c # cs) = of_char c # lit cs"
  by (simp add: lit_def)

lemma lit_append [simp]: "lit (s @ t) = lit s @ lit t"
  by (simp add: lit_def)

lemma length_lit [simp]: "length (lit s) = length s"
  by (simp add: lit_def)

lemma lit_inject [simp]: "lit s = lit t \<longleftrightarrow> s = t"
proof -
  have "inj (of_char :: char \<Rightarrow> nat)"
    by (rule inj_of_char)
  then show ?thesis
    by (simp add: lit_def)
qed

lemma lit_eq_Nil [simp]: "lit s = [] \<longleftrightarrow> s = []" "[] = lit s \<longleftrightarrow> s = []"
  by (auto simp: lit_def)

lemma lit_ascii: "c \<in> set (lit s) \<Longrightarrow> c < 256"
  by (auto simp: lit_def)

text \<open>Decimal rendering of a non-negative number, as \<open>String(n)\<close> does.\<close>

fun dec_nat :: "nat \<Rightarrow> jsstring" where
  "dec_nat n = (if n < 10 then [48 + n] else dec_nat (n div 10) @ [48 + n mod 10])"

declare dec_nat.simps [simp del]

lemma dec_nat_nonempty [simp]: "dec_nat n \<noteq> []"
  by (subst dec_nat.simps) simp

lemma dec_nat_digits: "c \<in> set (dec_nat n) \<Longrightarrow> 48 \<le> c \<and> c \<le> 57"
proof (induction n arbitrary: c rule: dec_nat.induct)
  case (1 n)
  show ?case
  proof (cases "n < 10")
    case True
    with "1.prems" show ?thesis
      by (subst (asm) dec_nat.simps) auto
  next
    case False
    from "1.prems" have "c \<in> set (dec_nat (n div 10)) \<or> c = 48 + n mod 10"
      using False by (subst (asm) dec_nat.simps) auto
    then show ?thesis
    proof
      assume "c \<in> set (dec_nat (n div 10))"
      with False show ?thesis by (simp add: "1.IH")
    next
      assume "c = 48 + n mod 10"
      moreover have "n mod 10 < 10" by simp
      ultimately show ?thesis by linarith
    qed
  qed
qed

section \<open>Exceptions\<close>

text \<open>
  The exceptions that the modelled lines can throw: \<open>encodeURIComponent\<close> on a lone
  surrogate, a property assignment on a value that is not an object (the module is
  strict-mode code), and \<open>btoa\<close> on a code unit above \<open>255\<close>.
\<close>

datatype js_error = URIError | TypeError | InvalidCharacterError

text \<open>
  A computation that can throw returns \<open>js_error + 'a\<close>. \<open>on_result f r\<close> continues a
  computation that did not throw with the pure function \<open>f\<close>; \<open>and_then\<close> continues it
  with one that can throw itself.
\<close>

fun on_result :: "('a \<Rightarrow> 'b) \<Rightarrow> 'e + 'a \<Rightarrow> 'e + 'b" where
  "on_result f (Inl e) = Inl e"
| "on_result f (Inr x) = Inr (f x)"

fun and_then :: "'e + 'a \<Rightarrow> ('a \<Rightarrow> 'e + 'b) \<Rightarrow> 'e + 'b" where
  "and_then (Inl e) f = Inl e"
| "and_then (Inr x) f = f x"

lemma on_result_on_result [simp]: "on_result f (on_result g r) = on_result (\<lambda>x. f (g x)) r"
  by (cases r) simp_all

lemma on_result_Inr_iff: "on_result f r = Inr y \<longleftrightarrow> (\<exists>x. r = Inr x \<and> y = f x)"
  by (cases r) auto

lemma on_result_Inl_iff [simp]: "on_result f r = Inl e \<longleftrightarrow> r = Inl e"
  by (cases r) auto

lemma and_then_Inr_iff: "and_then r f = Inr y \<longleftrightarrow> (\<exists>x. r = Inr x \<and> f x = Inr y)"
  by (cases r) auto

lemma and_then_Inl_iff:
  "and_then r f = Inl e \<longleftrightarrow> r = Inl e \<or> (\<exists>x. r = Inr x \<and> f x = Inl e)"
  by (cases r) auto

section \<open>Values\<close>

datatype jsval =
    JUndefined
  | JNull
  | JBool bool
  | JNum int
  | JStr jsstring
  | JObj "(string \<times> jsval) list"

text \<open>Truthiness, as tested by \<open>if (v)\<close>, \<open>!v\<close> and \<open>v || d\<close>.\<close>

fun truthy :: "jsval \<Rightarrow> bool" where
  "truthy JUndefined = False"
| "truthy JNull = False"
| "truthy (JBool b) = b"
| "truthy (JNum n) = (n \<noteq> 0)"
| "truthy (JStr s) = (s \<noteq> [])"
| "truthy (JObj kvs) = True"

text \<open>String conversion, as applied by \<open>+\<close> with a string operand.\<close>

fun to_string :: "jsval \<Rightarrow> jsstring" where
  "to_string JUndefined = lit ''undefined''"
| "to_string JNull = lit ''null''"
| "to_string (JBool b) = (if b then lit ''true'' else lit ''false'')"
| "to_string (JNum n) = (if n < 0 then 45 # dec_nat (nat (- n)) else dec_nat (nat n))"
| "to_string (JStr s) = s"
| "to_string (JObj kvs) = lit ''[object Object]''"

text \<open>
  Property read \<open>v[k]\<close> on an object (a missing property reads as \<open>undefined\<close>), and
  property write \<open>v[k] = x\<close>: an existing property keeps its position, a new one is added
  last, and a write to anything but an object throws.
\<close>

fun jget :: "jsval \<Rightarrow> string \<Rightarrow> jsval" where
  "jget (JObj kvs) k = (case map_of kvs k of None \<Rightarrow> JUndefined | Some v \<Rightarrow> v)"
| "jget _ k = JUndefined"

fun jset :: "jsval \<Rightarrow> string \<Rightarrow> jsval \<Rightarrow> js_error + jsval" where
  "jset (JObj kvs) k x = Inr (JObj (AList.update k x kvs))"
| "jset _ k x = Inl TypeError"

fun is_object :: "jsval \<Rightarrow> bool" where
  "is_object (JObj kvs) = True"
| "is_object _ = False"

lemma jset_Inr_iff: "(\<exists>w. jset v k x = Inr w) \<longleftrightarrow> is_object v"
  by (cases v) auto

lemma jset_Inl_iff: "jset v k x = Inl e \<longleftrightarrow> \<not> is_object v \<and> e = TypeError"
  by (cases v) auto

lemma jget_jset_same: "jset v k x = Inr w \<Longrightarrow> jget w k = x"
  by (cases v) (auto simp: update_conv')

lemma jget_jset_other: "jset v k x = Inr w \<Longrightarrow> k' \<noteq> k \<Longrightarrow> jget w k' = jget v k'"
  by (cases v) (auto simp: update_conv')

lemma jset_is_object: "jset v k x = Inr w \<Longrightarrow> is_object w"
  by (cases v) auto

section \<open>Statements in sequence\<close>

text \<open>
  A handler of the source is a sequence of statements, each of which changes the state.
  \<open>seq\<close> runs state transformers in the order they are written.
\<close>

definition seq :: "('s \<Rightarrow> 's) list \<Rightarrow> 's \<Rightarrow> 's" where
  "seq fs s = foldl (\<lambda>s f. f s) s fs"

lemma seq_Nil [simp]: "seq [] s = s"
  by (simp add: seq_def)

lemma seq_Cons [simp]: "seq (f # fs) s = seq fs (f s)"
  by (simp add: seq_def)

lemma seq_append [simp]: "seq (fs @ gs) s = seq gs (seq fs s)"
  by (simp add: seq_def)

lemma seq_replicate: "seq (replicate n f) s = (f ^^ n) s"
  by (induction n arbitrary: s) (simp_all add: funpow_swap1)

text \<open>A property that every statement keeps is kept by the sequence.\<close>

lemma seq_preserves:
  "(\<And>f s. f \<in> set fs \<Longrightarrow> P s \<Longrightarrow> P (f s)) \<Longrightarrow> P s \<Longrightarrow> P (seq fs s)"
  by (induction fs arbitrary: s) auto

section \<open>Lists\<close>

lemma filter_idem [simp]: "filter P (filter P xs) = filter P xs"
  by (induction xs) auto

lemma length_filter_snoc:
  "length (filter P (xs @ [x])) = length (filter P xs) + (if P x then 1 else 0)"
  by simp

lemma filter_replicate_append_True:
  "P x \<Longrightarrow> filter P (xs @ replicate n x) = filter P xs @ replicate n x"
  by simp

text \<open>Setting the cells of a list of flags from the left, one at a time.\<close>

lemma set_flags_step:
  assumes "m < length xs"
  shows "(replicate m True @ drop m xs)[m := True] = replicate (Suc m) True @ drop (Suc m) xs"
    and "(replicate m True @ drop m xs) ! m = xs ! m"
    and "xs ! m \<Longrightarrow> replicate m True @ drop m xs = replicate (Suc m) True @ drop (Suc m) xs"
proof -
  from assms have d: "drop m xs = xs ! m # drop (Suc m) xs"
    by (simp add: Cons_nth_drop_Suc)
  show "(replicate m True @ drop m xs)[m := True] = replicate (Suc m) True @ drop (Suc m) xs"
    by (simp add: d list_update_append replicate_append_same)
  show "(replicate m True @ drop m xs) ! m = xs ! m"
    by (simp add: d nth_append)
  show "replicate m True @ drop m xs = replicate (Suc m) True @ drop (Suc m) xs" if "xs ! m"
    using that by (simp add: d replicate_append_same)
qed

text \<open>Setting a flag that was not set adds one to the number of flags set.\<close>

lemma count_flags_update:
  "k < length xs \<Longrightarrow> \<not> xs ! k \<Longrightarrow>
   length (filter (\<lambda>b. b) (xs[k := True])) = Suc (length (filter (\<lambda>b. b) xs))"
  by (induction xs arbitrary: k) (auto simp: nth_Cons split: nat.splits)

lemma filter_replicate_const [simp]:
  "filter P (replicate n x) = (if P x then replicate n x else [])"
  by (induction n) simp_all

lemma find_append:
  "find P (xs @ ys) = (case find P xs of None \<Rightarrow> find P ys | Some x \<Rightarrow> Some x)"
  by (induction xs) auto

lemma find_filter_None [simp]: "find P (filter (\<lambda>x. \<not> P x) xs) = None"
  by (simp add: find_None_iff)

lemma list_all_filter_self [simp]: "list_all P (filter P xs)"
  by (simp add: list_all_iff)

lemma filter_id_conv_all: "filter P xs = xs \<longleftrightarrow> list_all P xs"
  by (simp add: list_all_iff filter_id_conv)

end
