(* ===== verification/JS_String.thy ===== *)
theory JS_String
  imports WB_Prelude
begin

text \<open>
  The string built-ins that \<^verbatim>\<open>main.js\<close> calls when it derives the whiteboard
  identifier (line 29): \<open>encodeURIComponent\<close>, \<open>unescape\<close> and the global regular
  expression replacement of the class \<^verbatim>\<open>[^a-zA-Z0-9\-]\<close>, each written after its
  ECMAScript algorithm, and \<open>normalizeId\<close>, the composition that line 29 applies.
  The lemmas show that \<open>unescape\<close> after \<open>encodeURIComponent\<close> is the UTF-8
  transcoding of the string, and that the whole of line 29 is a plain filter on
  well-formed strings and throws on the others.
\<close>

section \<open>Character classes\<close>

definition is_upper :: "jschar \<Rightarrow> bool" where
  "is_upper c \<longleftrightarrow> 65 \<le> c \<and> c \<le> 90"

definition is_lower :: "jschar \<Rightarrow> bool" where
  "is_lower c \<longleftrightarrow> 97 \<le> c \<and> c \<le> 122"

definition is_digit :: "jschar \<Rightarrow> bool" where
  "is_digit c \<longleftrightarrow> 48 \<le> c \<and> c \<le> 57"

text \<open>The class \<^verbatim>\<open>[a-zA-Z0-9\-]\<close> whose complement line 29 deletes.\<close>

definition id_char :: "jschar \<Rightarrow> bool" where
  "id_char c \<longleftrightarrow> is_lower c \<or> is_upper c \<or> is_digit c \<or> c = 45"

text \<open>The characters \<open>encodeURIComponent\<close> leaves alone: letters, digits and \<^verbatim>\<open>-_.!~*'()\<close>.\<close>

definition uri_unreserved :: "jschar \<Rightarrow> bool" where
  "uri_unreserved c \<longleftrightarrow>
     is_lower c \<or> is_upper c \<or> is_digit c \<or> c \<in> {45, 95, 46, 33, 126, 42, 39, 40, 41}"

definition is_lead :: "jschar \<Rightarrow> bool" where
  "is_lead c \<longleftrightarrow> 55296 \<le> c \<and> c \<le> 56319"

definition is_trail :: "jschar \<Rightarrow> bool" where
  "is_trail c \<longleftrightarrow> 56320 \<le> c \<and> c \<le> 57343"

lemmas char_class_defs =
  is_upper_def is_lower_def is_digit_def id_char_def uri_unreserved_def is_lead_def is_trail_def

section \<open>Hexadecimal digits\<close>

definition hex_digit :: "nat \<Rightarrow> jschar" where
  "hex_digit d = (if d < 10 then 48 + d else 55 + d)"

definition hex_val :: "jschar \<Rightarrow> nat option" where
  "hex_val c =
     (if is_digit c then Some (c - 48)
      else if 65 \<le> c \<and> c \<le> 70 then Some (c - 55)
      else if 97 \<le> c \<and> c \<le> 102 then Some (c - 87)
      else None)"

definition is_hex :: "jschar \<Rightarrow> bool" where
  "is_hex c \<longleftrightarrow> hex_val c \<noteq> None"

definition hex_num :: "jsstring \<Rightarrow> nat" where
  "hex_num ds = foldl (\<lambda>a c. 16 * a + (case hex_val c of None \<Rightarrow> 0 | Some d \<Rightarrow> d)) 0 ds"

section \<open>UTF-8\<close>

definition surrogate_pair :: "jschar \<Rightarrow> jschar \<Rightarrow> nat" where
  "surrogate_pair hi lo = (hi - 55296) * 1024 + (lo - 56320) + 65536"

definition utf8_encode :: "nat \<Rightarrow> nat list" where
  "utf8_encode cp =
     (if cp < 128 then [cp]
      else if cp < 2048 then [192 + cp div 64, 128 + cp mod 64]
      else if cp < 65536 then [224 + cp div 4096, 128 + cp div 64 mod 64, 128 + cp mod 64]
      else [240 + cp div 262144 mod 8, 128 + cp div 4096 mod 64,
            128 + cp div 64 mod 64, 128 + cp mod 64])"

text \<open>
  The UTF-8 transcoding of a string of UTF-16 code units, the reference that the
  composition of the two built-ins is compared with. A lone surrogate has no encoding.
\<close>

fun utf8_string :: "jsstring \<Rightarrow> js_error + nat list" where
  "utf8_string [] = Inr []"
| "utf8_string (c # cs) =
     (if is_trail c then Inl URIError
      else if is_lead c then
        (case cs of
           [] \<Rightarrow> Inl URIError
         | d # ds \<Rightarrow>
             if is_trail d
             then on_result ((@) (utf8_encode (surrogate_pair c d))) (utf8_string ds)
             else Inl URIError)
      else on_result ((@) (utf8_encode c)) (utf8_string cs))"

fun well_formed :: "jsstring \<Rightarrow> bool" where
  "well_formed [] = True"
| "well_formed (c # cs) =
     (if is_trail c then False
      else if is_lead c then
        (case cs of [] \<Rightarrow> False | d # ds \<Rightarrow> is_trail d \<and> well_formed ds)
      else well_formed cs)"

section \<open>The built-ins\<close>

definition pct_encode :: "nat \<Rightarrow> jsstring" where
  "pct_encode b = [37, hex_digit (b div 16), hex_digit (b mod 16)]"

definition pct_bytes :: "nat list \<Rightarrow> jsstring" where
  "pct_bytes bs = concat (map pct_encode bs)"

fun encodeURIComponent :: "jsstring \<Rightarrow> js_error + jsstring" where
  "encodeURIComponent [] = Inr []"
| "encodeURIComponent (c # cs) =
     (if uri_unreserved c then on_result ((#) c) (encodeURIComponent cs)
      else if is_trail c then Inl URIError
      else if is_lead c then
        (case cs of
           [] \<Rightarrow> Inl URIError
         | d # ds \<Rightarrow>
             if is_trail d
             then on_result ((@) (pct_bytes (utf8_encode (surrogate_pair c d))))
                    (encodeURIComponent ds)
             else Inl URIError)
      else on_result ((@) (pct_bytes (utf8_encode c))) (encodeURIComponent cs))"

fun unescape :: "jsstring \<Rightarrow> jsstring" where
  "unescape [] = []"
| "unescape (c # cs) =
     (if c \<noteq> 37 then c # unescape cs
      else if 5 \<le> length cs \<and> hd cs = 117 then
        (if list_all is_hex (take 4 (tl cs))
         then hex_num (take 4 (tl cs)) # unescape (drop 5 cs)
         else c # unescape cs)
      else if 2 \<le> length cs then
        (if list_all is_hex (take 2 cs)
         then hex_num (take 2 cs) # unescape (drop 2 cs)
         else c # unescape cs)
      else c # unescape cs)"

text \<open>The replacement \<^verbatim>\<open>.replace(/[^a-zA-Z0-9\-]/g, "")\<close>: every code unit outside the class goes.\<close>

definition strip_non_id :: "jsstring \<Rightarrow> jsstring" where
  "strip_non_id s = filter id_char s"

text \<open>Line 29: \<^verbatim>\<open>unescape(encodeURIComponent(whiteboardId)).replace(/[^a-zA-Z0-9\-]/g, "")\<close>.\<close>

definition normalizeId :: "jsstring \<Rightarrow> js_error + jsstring" where
  "normalizeId s = on_result (\<lambda>e. strip_non_id (unescape e)) (encodeURIComponent s)"

section \<open>Facts about the character classes\<close>

lemma id_char_unreserved: "id_char c \<Longrightarrow> uri_unreserved c"
  by (auto simp: char_class_defs)

lemma id_char_ascii: "id_char c \<Longrightarrow> c < 128"
  by (auto simp: char_class_defs)

lemma unreserved_ascii: "uri_unreserved c \<Longrightarrow> c < 128 \<and> c \<noteq> 37"
  by (auto simp: char_class_defs)

lemma surrogate_not_ascii: "is_lead c \<or> is_trail c \<Longrightarrow> \<not> c < 128"
  by (auto simp: char_class_defs)

lemma id_char_not_surrogate [simp]: "id_char c \<Longrightarrow> \<not> is_lead c \<and> \<not> is_trail c"
  by (auto simp: char_class_defs)

lemma unreserved_not_surrogate [simp]: "uri_unreserved c \<Longrightarrow> \<not> is_lead c \<and> \<not> is_trail c"
  by (auto simp: char_class_defs)

lemma lead_not_trail: "is_lead c \<Longrightarrow> \<not> is_trail c"
  by (auto simp: char_class_defs)

section \<open>Facts about hexadecimal digits\<close>

lemma hex_val_hex_digit [simp]: "d < 16 \<Longrightarrow> hex_val (hex_digit d) = Some d"
  by (auto simp: hex_val_def hex_digit_def is_digit_def)

lemma is_hex_hex_digit [simp]: "d < 16 \<Longrightarrow> is_hex (hex_digit d)"
  by (simp add: is_hex_def)

lemma hex_digit_not_u [simp]: "d < 16 \<Longrightarrow> hex_digit d \<noteq> 117"
  by (auto simp: hex_digit_def)

lemma hex_num_pair [simp]:
  "a < 16 \<Longrightarrow> b < 16 \<Longrightarrow> hex_num [hex_digit a, hex_digit b] = 16 * a + b"
  by (simp add: hex_num_def)

lemma is_hex_not_u: "is_hex c \<Longrightarrow> c \<noteq> 117"
  by (auto simp: is_hex_def hex_val_def is_digit_def split: if_splits)

section \<open>Facts about UTF-8\<close>

lemma utf8_encode_ascii [simp]: "cp < 128 \<Longrightarrow> utf8_encode cp = [cp]"
  by (simp add: utf8_encode_def)

lemma utf8_encode_high: "\<not> cp < 128 \<Longrightarrow> b \<in> set (utf8_encode cp) \<Longrightarrow> 128 \<le> b"
  by (auto simp: utf8_encode_def split: if_splits)

lemma utf8_encode_byte: "b \<in> set (utf8_encode cp) \<Longrightarrow> b < 256"
  by (auto simp: utf8_encode_def split: if_splits)

lemma surrogate_pair_range:
  "is_lead hi \<Longrightarrow> is_trail lo \<Longrightarrow>
   65536 \<le> surrogate_pair hi lo \<and> surrogate_pair hi lo < 1114112"
  by (auto simp: surrogate_pair_def is_lead_def is_trail_def)

lemma strip_utf8_encode:
  "strip_non_id (utf8_encode cp) = (if cp < 128 then strip_non_id [cp] else [])"
proof (cases "cp < 128")
  case True
  then show ?thesis by simp
next
  case False
  have "\<not> id_char b" if "b \<in> set (utf8_encode cp)" for b
    using utf8_encode_high [OF False that] id_char_ascii [of b] by auto
  with False show ?thesis
    by (simp add: strip_non_id_def filter_empty_conv)
qed

section \<open>\<open>unescape\<close> undoes the percent-encoding of bytes\<close>

lemma unescape_plain [simp]: "c \<noteq> 37 \<Longrightarrow> unescape (c # cs) = c # unescape cs"
  by simp

lemma unescape_pct_encode: 
  assumes "b < 256"
  shows "unescape (pct_encode b @ rest) = b # unescape rest"
proof -
  from assms have d: "b div 16 < 16" "b mod 16 < 16"
    by simp_all
  then have "16 * (b div 16) + b mod 16 = b"
    by simp
  with d show ?thesis
    by (simp add: pct_encode_def)
qed

lemma unescape_pct_bytes:
  "\<forall>b \<in> set bs. b < 256 \<Longrightarrow> unescape (pct_bytes bs @ rest) = bs @ unescape rest"
proof (induction bs)
  case Nil
  then show ?case by (simp add: pct_bytes_def)
next
  case (Cons b bs)
  then have "unescape (pct_encode b @ pct_bytes bs @ rest) = b # unescape (pct_bytes bs @ rest)"
    by (simp add: unescape_pct_encode)
  with Cons show ?case
    by (simp add: pct_bytes_def)
qed

lemma unescape_pct_utf8 [simp]:
  "unescape (pct_bytes (utf8_encode cp) @ rest) = utf8_encode cp @ unescape rest"
  by (rule unescape_pct_bytes) (auto dest: utf8_encode_byte)


lemma unescape_pct_utf8_all [simp]: "unescape (pct_bytes (utf8_encode cp)) = utf8_encode cp"
  using unescape_pct_utf8 [of cp "[]"] by simp

section \<open>Line 29 as a whole\<close>

lemma unescape_encodeURIComponent_utf8:
  "on_result unescape (encodeURIComponent s) = utf8_string s"
proof (induction s rule: encodeURIComponent.induct)
  case 1
  show ?case by simp
next
  case (2 c cs)
  show ?case
  proof (cases "uri_unreserved c")
    case True
    then have "\<not> is_lead c" "\<not> is_trail c" "c \<noteq> 37" "c < 128"
      by (simp_all add: unreserved_ascii)
    with True "2.IH"(1) [symmetric] show ?thesis
      by simp
  next
    case False
    show ?thesis
    proof (cases cs)
      case Nil
      with False "2.IH"(3) [symmetric] show ?thesis
        by simp
    next
      case (Cons d ds)
      with False "2.IH"(2) [symmetric] "2.IH"(3) [symmetric] show ?thesis
        by simp
    qed
  qed
qed

lemma strip_non_id_simps [simp]:
  "strip_non_id [] = []"
  "strip_non_id (c # cs) = (if id_char c then c # strip_non_id cs else strip_non_id cs)"
  "strip_non_id (xs @ ys) = strip_non_id xs @ strip_non_id ys"
  by (simp_all add: strip_non_id_def)

lemma strip_utf8_encode_id [simp]:
  "strip_non_id (utf8_encode cp) = (if id_char cp then [cp] else [])"
  using strip_utf8_encode [of cp] id_char_ascii [of cp] by auto

lemma surrogate_pair_not_id [simp]:
  "is_lead c \<Longrightarrow> is_trail d \<Longrightarrow> \<not> id_char (surrogate_pair c d)"
  using surrogate_pair_range [of c d] id_char_ascii [of "surrogate_pair c d"] by auto

lemma strip_utf8_string:
  "on_result strip_non_id (utf8_string s) =
     (if well_formed s then Inr (strip_non_id s) else Inl URIError)"
proof (induction s rule: utf8_string.induct)
  case 1
  show ?case by simp
next
  case (2 c cs)
  show ?case
  proof (cases "is_lead c")
    case True
    then have c: "\<not> is_trail c" "\<not> id_char c"
      using id_char_not_surrogate [of c] by (auto simp: lead_not_trail)
    show ?thesis
    proof (cases cs)
      case Nil
      with True c show ?thesis by simp
    next
      case (Cons d ds)
      show ?thesis
      proof (cases "is_trail d")
        case d: True
        then have "\<not> id_char d"
          using id_char_not_surrogate [of d] by auto
        with "2.IH"(1) [OF c(1) True Cons d] True c d Cons show ?thesis
          by (cases "utf8_string ds") (auto split: if_splits)
      next
        case False
        with True c Cons show ?thesis by simp
      qed
    qed
  next
    case False
    show ?thesis
    proof (cases "is_trail c")
      case True
      with False show ?thesis by simp
    next
      case nt: False
      with "2.IH"(2) [OF nt False] False show ?thesis
        by (cases "utf8_string cs") (auto split: if_splits)
    qed
  qed
qed

lemma well_formed_no_surrogates:
  "list_all (\<lambda>c. \<not> is_lead c \<and> \<not> is_trail c) s \<Longrightarrow> well_formed s"
  by (induction s) auto

lemma well_formed_strip [simp]: "well_formed (strip_non_id s)"
  by (rule well_formed_no_surrogates) (simp add: strip_non_id_def list_all_iff)

lemma strip_non_id_idem [simp]: "strip_non_id (strip_non_id s) = strip_non_id s"
  by (simp add: strip_non_id_def)

lemma normalizeId_utf8: "normalizeId s = on_result strip_non_id (utf8_string s)"
  by (simp add: normalizeId_def unescape_encodeURIComponent_utf8 [symmetric])

lemma normalizeId_Inr_iff:
  "normalizeId s = Inr t \<longleftrightarrow> well_formed s \<and> t = strip_non_id s"
  by (auto simp: normalizeId_utf8 strip_utf8_string)

lemma normalizeId_Inl_iff: "normalizeId s = Inl e \<longleftrightarrow> \<not> well_formed s \<and> e = URIError"
  by (auto simp: normalizeId_utf8 strip_utf8_string)

lemma normalizeId_strip [simp]: "normalizeId (strip_non_id s) = Inr (strip_non_id s)"
  by (simp add: normalizeId_Inr_iff)

lemma normalizeId_id_chars: "list_all id_char s \<Longrightarrow> normalizeId s = Inr s"
  using normalizeId_strip [of s] by (simp add: strip_non_id_def filter_id_conv_all [THEN iffD2])

text \<open>Facts that evaluate line 29 on a literal.\<close>

lemmas normalizeId_eval = normalizeId_utf8 strip_utf8_string char_class_defs lit_Cons

text \<open>
  \<open>substring(a, b)\<close>: the code units from the smaller index up to the larger one, both
  clamped to the length of the string.
\<close>

definition substring :: "nat \<Rightarrow> nat \<Rightarrow> jsstring \<Rightarrow> jsstring" where
  "substring a b s = take (max a b - min a b) (drop (min a b) s)"

lemma length_substring_le: "length (substring a b s) \<le> max a b - min a b"
  by (simp add: substring_def)

text \<open>
  C6. Line 29 deletes every code unit outside \<^verbatim>\<open>[a-zA-Z0-9-]\<close> from a well-formed
  string and leaves the rest in place: the detour through \<open>encodeURIComponent\<close> and
  \<open>unescape\<close> changes nothing that survives the replacement. On a string with a lone
  surrogate it throws \<open>URIError\<close>.
\<close>

theorem normalizeId_eq:
  "normalizeId s = (if well_formed s then Inr (filter id_char s) else Inl URIError)"
  by (simp add: normalizeId_utf8 strip_utf8_string) (simp add: strip_non_id_def)

theorem normalizeId_eq_witness:
  "normalizeId (lit ''My Board!!'') = Inr (lit ''MyBoard'') \<and>
   normalizeId (lit ''a%41'') = Inr (lit ''a41'') \<and>
   normalizeId [97, 55357] = Inl URIError"
  by (simp add: normalizeId_eq char_class_defs lit_Cons)

text \<open>
  C31. \<open>unescape(encodeURIComponent(s))\<close> is the UTF-8 transcoding of \<open>s\<close>, one code unit
  per byte, and throws exactly when \<open>s\<close> has a lone surrogate.
\<close>

theorem unescape_encodeURIComponent:
  "on_result unescape (encodeURIComponent s) = utf8_string s \<and>
   ((\<exists>e. encodeURIComponent s = Inl e) \<longleftrightarrow> \<not> well_formed s)"
proof
  show eq: "on_result unescape (encodeURIComponent s) = utf8_string s"
    by (rule unescape_encodeURIComponent_utf8)
  have "(\<exists>e. encodeURIComponent s = Inl e) \<longleftrightarrow> (\<exists>e. utf8_string s = Inl e)"
    by (simp add: eq [symmetric])
  also have "\<dots> \<longleftrightarrow> \<not> well_formed s"
    using strip_utf8_string [of s] by (cases "utf8_string s") (auto split: if_splits)
  finally show "(\<exists>e. encodeURIComponent s = Inl e) \<longleftrightarrow> \<not> well_formed s" .
qed

text \<open>
  C32. Normalisation is idempotent: an identifier that line 29 produced is returned
  unchanged when line 29 runs on it again, as it does after the page reloads.
\<close>

theorem normalizeId_idem: "normalizeId s = Inr t \<Longrightarrow> normalizeId t = Inr t"
  by (auto simp: normalizeId_Inr_iff)

theorem normalizeId_idem_witness:
  "normalizeId (lit ''My Board!!'') = Inr (lit ''MyBoard'') \<and>
   normalizeId (lit ''MyBoard'') = Inr (lit ''MyBoard'')"
proof -
  have 1: "normalizeId (lit ''My Board!!'') = Inr (lit ''MyBoard'')"
    by (simp add: normalizeId_utf8 strip_utf8_string char_class_defs lit_Cons)
  from 1 normalizeId_idem [OF 1] show ?thesis by simp
qed



end
