(* ===== verification/Url_Params.thy ===== *)
theory Url_Params
  imports WB_Prelude
begin

text \<open>
  The \<open>URLSearchParams\<close> object that \<^verbatim>\<open>main.js\<close> builds from the query string (line 15):
  an ordered list of name-value pairs in which a name may occur more than once. \<open>get\<close>
  reads the first pair of a name (\<open>null\<close>, here \<open>None\<close>, when there is none),
  \<open>delete\<close> removes every pair of a name, and \<open>set\<close> overwrites the first pair of a name
  and removes the others, or appends a pair. The lemmas are the read-after-write laws
  that the start-up code relies on.
\<close>

type_synonym url_params = "(jsstring \<times> jsstring) list"

definition usp_get :: "jsstring \<Rightarrow> url_params \<Rightarrow> jsstring option" where
  "usp_get k ps = map_of ps k"

definition usp_delete :: "jsstring \<Rightarrow> url_params \<Rightarrow> url_params" where
  "usp_delete k ps = filter (\<lambda>p. fst p \<noteq> k) ps"

fun usp_set :: "jsstring \<Rightarrow> jsstring \<Rightarrow> url_params \<Rightarrow> url_params" where
  "usp_set k v [] = [(k, v)]"
| "usp_set k v (p # ps) =
     (if fst p = k then (k, v) # usp_delete k ps else p # usp_set k v ps)"

text \<open>A value read from the parameters is used as a condition: \<open>null\<close> and \<open>""\<close> are false.\<close>

fun present :: "jsstring option \<Rightarrow> bool" where
  "present None = False"
| "present (Some s) = (s \<noteq> [])"

text \<open>\<open>v || d\<close> for a value read from the parameters.\<close>

fun or_else :: "jsstring option \<Rightarrow> jsstring \<Rightarrow> jsstring" where
  "or_else None d = d"
| "or_else (Some s) d = (if s = [] then d else s)"

lemma usp_get_Nil [simp]: "usp_get k [] = None"
  by (simp add: usp_get_def)

lemma usp_get_Cons [simp]:
  "usp_get k (p # ps) = (if fst p = k then Some (snd p) else usp_get k ps)"
  by (cases p) (auto simp: usp_get_def)

lemma usp_delete_simps [simp]:
  "usp_delete k [] = []"
  "usp_delete k (p # ps) = (if fst p = k then usp_delete k ps else p # usp_delete k ps)"
  by (simp_all add: usp_delete_def)

lemma usp_get_delete [simp]:
  "usp_get k' (usp_delete k ps) = (if k' = k then None else usp_get k' ps)"
  by (induction ps) auto

lemma usp_get_set [simp]:
  "usp_get k' (usp_set k v ps) = (if k' = k then Some v else usp_get k' ps)"
  by (induction ps) auto

lemma usp_delete_idem [simp]: "usp_delete k (usp_delete k ps) = usp_delete k ps"
  by (simp add: usp_delete_def)

lemma usp_delete_absent: "usp_get k ps = None \<Longrightarrow> usp_delete k ps = ps"
  by (induction ps) (auto split: if_splits)

lemma usp_delete_set [simp]: "usp_delete k (usp_set k v ps) = usp_delete k ps"
  by (induction ps) auto

lemma usp_set_idem [simp]: "usp_set k v (usp_set k v ps) = usp_set k v ps"
  by (induction ps) auto

lemma usp_set_keys:
  "set (map fst (usp_set k v ps)) = insert k (set (map fst ps))"
  by (induction ps) (auto simp: usp_delete_def)

text \<open>After \<open>set\<close> the name occurs exactly once, whatever the list held before.\<close>

lemma usp_set_once: "length (filter (\<lambda>p. fst p = k) (usp_set k v ps)) = 1"
  by (induction ps) (auto simp: usp_delete_def filter_empty_conv)

lemma present_or_else: "present (Some (or_else r d)) \<longleftrightarrow> present r \<or> d \<noteq> []"
  by (cases r) auto

lemma or_else_eq_Nil [simp]: "or_else r d = [] \<longleftrightarrow> d = [] \<and> \<not> present r"
  by (cases r) auto

lemma or_else_present: "present r \<Longrightarrow> Some (or_else r d) = r"
  by (cases r) auto

lemma or_else_absent: "\<not> present r \<Longrightarrow> or_else r d = d"
  by (cases r) auto

end
