(* ===== verification/Session_Identity.thy ===== *)
theory Session_Identity
  imports JS_String Url_Params
begin

text \<open>
  The module-level start-up code of \<^verbatim>\<open>main.js\<close> (lines 15 to 37 and 45): it reads the
  launch parameters, chooses and normalises the whiteboard identifier, rewrites the
  location when the identifier in the query string is not the normalised one, and fixes
  the participant's name and access token. \<open>boot\<close> is that code as a function of what it
  reads from outside (\<open>launch_env\<close>); its result holds the constants the rest of the
  module uses and the last value assigned to \<^verbatim>\<open>window.location.search\<close>, which is where
  the browser goes next. The lemmas show what identifier is chosen, that the location is
  rewritten to agree with it, and that reloading settles after at most two reloads.
\<close>

section \<open>What start-up reads and what it fixes\<close>

record launch_env =
  query :: url_params
  uuid :: jsstring
  random :: jsstring
  sub_dir :: jsstring

record identity =
  whiteboardId :: jsstring
  myUsername :: jsstring
  accessToken :: jsstring
  subdir :: jsstring

record boot_result =
  outcome :: "js_error + identity"
  location :: "url_params option"

section \<open>The start-up code\<close>

text \<open>
  Lines 15 to 27: the identifier before normalisation, the parameters after the
  \<^verbatim>\<open>randomid\<close> branch, and the location that branch assigned.
\<close>

definition pick_id :: "launch_env \<Rightarrow> jsstring \<times> url_params \<times> url_params option" where
  "pick_id e =
     (let urlParams = query e;
          whiteboardId = usp_get (lit ''whiteboardid'') urlParams;
          randomid = usp_get (lit ''randomid'') urlParams
      in if present randomid
         then (or_else (Some (uuid e)) (lit ''myNewWhiteboard''),
               usp_delete (lit ''randomid'') urlParams,
               Some (usp_delete (lit ''randomid'') urlParams))
         else (or_else whiteboardId (lit ''myNewWhiteboard''), urlParams, None))"

text \<open>Lines 31 to 34: the location is rewritten when the query string disagrees.\<close>

definition rewrite_id ::
  "jsstring \<Rightarrow> url_params \<Rightarrow> url_params option \<Rightarrow> url_params \<times> url_params option" where
  "rewrite_id wid urlParams loc =
     (if usp_get (lit ''whiteboardid'') urlParams \<noteq> Some wid
      then (usp_set (lit ''whiteboardid'') wid urlParams,
            Some (usp_set (lit ''whiteboardid'') wid urlParams))
      else (urlParams, loc))"

text \<open>Line 36, the fallback name: \<^verbatim>\<open>"unknown" + (Math.random() + "").substring(2, 6)\<close>.\<close>

definition default_username :: "jsstring \<Rightarrow> jsstring" where
  "default_username rnd = lit ''unknown'' @ substring 2 6 rnd"

definition boot :: "launch_env \<Rightarrow> boot_result" where
  "boot e =
     (case pick_id e of
        (raw, urlParams, loc) \<Rightarrow>
          (case normalizeId raw of
             Inl err \<Rightarrow> \<lparr>outcome = Inl err, location = loc\<rparr>
           | Inr wid \<Rightarrow>
               (case rewrite_id wid urlParams loc of
                  (urlParams', loc') \<Rightarrow>
                    \<lparr>outcome = Inr
                       \<lparr>whiteboardId = wid,
                        myUsername = or_else (usp_get (lit ''username'') urlParams')
                                       (default_username (random e)),
                        accessToken = or_else (usp_get (lit ''accesstoken'') urlParams') [],
                        subdir = sub_dir e\<rparr>,
                     location = loc'\<rparr>)))"

lemmas boot_defs = boot_def pick_id_def rewrite_id_def default_username_def

text \<open>Facts that evaluate \<open>boot\<close> on a concrete query string.\<close>

lemmas boot_eval = boot_defs Let_def substring_def normalizeId_eval

text \<open>A launch environment for the worked examples: only the query string varies.\<close>

definition demo_env :: "url_params \<Rightarrow> launch_env" where
  "demo_env q = \<lparr>query = q, uuid = lit ''1b9d6bcd-bbfd-4b2d-9b5d-ab8dfbbd4bed'',
                 random = lit ''0.7351'', sub_dir = []\<rparr>"

definition random_mode :: "launch_env \<Rightarrow> bool" where
  "random_mode e \<longleftrightarrow> present (usp_get (lit ''randomid'') (query e))"

definition raw_id :: "launch_env \<Rightarrow> jsstring" where
  "raw_id e = fst (pick_id e)"

section \<open>The chosen identifier\<close>

lemma pick_id_random:
  "random_mode e \<Longrightarrow>
   pick_id e = (or_else (Some (uuid e)) (lit ''myNewWhiteboard''),
                usp_delete (lit ''randomid'') (query e),
                Some (usp_delete (lit ''randomid'') (query e)))"
  by (simp add: pick_id_def random_mode_def Let_def)

lemma pick_id_plain:
  "\<not> random_mode e \<Longrightarrow>
   pick_id e = (or_else (usp_get (lit ''whiteboardid'') (query e)) (lit ''myNewWhiteboard''),
                query e, None)"
  by (simp add: pick_id_def random_mode_def Let_def)

lemma raw_id_nonempty [simp]: "raw_id e \<noteq> []"
  by (cases "random_mode e") (simp_all add: raw_id_def pick_id_random pick_id_plain)

lemma boot_outcome:
  "outcome (boot e) = Inr i \<longleftrightarrow>
     well_formed (raw_id e) \<and>
     i = \<lparr>whiteboardId = strip_non_id (raw_id e),
          myUsername = or_else (usp_get (lit ''username'') (query e))
                         (default_username (random e)),
          accessToken = or_else (usp_get (lit ''accesstoken'') (query e)) [],
          subdir = sub_dir e\<rparr>"
  by (cases "random_mode e")
     (auto simp: boot_def raw_id_def pick_id_random pick_id_plain rewrite_id_def
        normalizeId_Inr_iff normalizeId_Inl_iff split: sum.splits)

lemma boot_id_chars: "outcome (boot e) = Inr i \<Longrightarrow> list_all id_char (whiteboardId i)"
  by (simp add: boot_outcome strip_non_id_def)

lemma boot_throws:
  "outcome (boot e) = Inl err \<longleftrightarrow> \<not> well_formed (raw_id e) \<and> err = URIError"
  by (cases "random_mode e")
     (auto simp: boot_def raw_id_def pick_id_random pick_id_plain rewrite_id_def
        normalizeId_Inr_iff normalizeId_Inl_iff split: sum.splits)

section \<open>The rewritten location\<close>

lemma boot_location_random:
  assumes "random_mode e" and "outcome (boot e) = Inr i"
  shows "location (boot e) =
     Some (if usp_get (lit ''whiteboardid'') (query e) = Some (whiteboardId i)
           then usp_delete (lit ''randomid'') (query e)
           else usp_set (lit ''whiteboardid'') (whiteboardId i)
                  (usp_delete (lit ''randomid'') (query e)))"
proof -
  from assms(2) have "normalizeId (raw_id e) = Inr (whiteboardId i)"
    by (simp add: boot_outcome normalizeId_Inr_iff)
  with assms(1) show ?thesis
    by (simp add: boot_def pick_id_random rewrite_id_def raw_id_def)
qed

lemma boot_location_plain:
  assumes "\<not> random_mode e" and "outcome (boot e) = Inr i"
  shows "location (boot e) =
     (if usp_get (lit ''whiteboardid'') (query e) = Some (whiteboardId i) then None
      else Some (usp_set (lit ''whiteboardid'') (whiteboardId i) (query e)))"
proof -
  from assms(2) have "normalizeId (raw_id e) = Inr (whiteboardId i)"
    by (simp add: boot_outcome normalizeId_Inr_iff)
  with assms(1) show ?thesis
    by (simp add: boot_def pick_id_plain rewrite_id_def raw_id_def)
qed

lemma boot_location_agrees:
  assumes "outcome (boot e) = Inr i" and "location (boot e) = Some ps"
  shows "usp_get (lit ''whiteboardid'') ps = Some (whiteboardId i)"
    and "\<not> present (usp_get (lit ''randomid'') ps)"
  using assms boot_location_random [of e i] boot_location_plain [of e i]
  by (cases "random_mode e"; cases "usp_get (lit ''whiteboardid'') (query e) = Some (whiteboardId i)";
      simp add: random_mode_def; force)+

section \<open>Reloading\<close>

text \<open>
  The browser follows the assigned location and the module runs again on the new query
  string, with a fresh UUID and a fresh random number. \<open>boot_stable\<close>: when the
  identifier is not empty, the next run finds the query string in agreement and assigns
  nothing.
\<close>

lemma boot_stable:
  assumes ok: "outcome (boot e) = Inr i" and loc: "location (boot e) = Some ps"
    and ne: "whiteboardId i \<noteq> []" and q: "query e' = ps"
  shows "location (boot e') = None"
    and "\<exists>i'. outcome (boot e') = Inr i' \<and> whiteboardId i' = whiteboardId i"
proof -
  from ok have wid: "whiteboardId i = strip_non_id (raw_id e)"
    by (simp add: boot_outcome)
  from boot_location_agrees [OF ok loc] q
  have get: "usp_get (lit ''whiteboardid'') (query e') = Some (whiteboardId i)"
    and plain: "\<not> random_mode e'"
    by (simp_all add: random_mode_def)
  from plain get ne have raw: "raw_id e' = whiteboardId i"
    by (simp add: raw_id_def pick_id_plain)
  then have out: "\<exists>i'. outcome (boot e') = Inr i' \<and> whiteboardId i' = whiteboardId i"
    by (simp add: boot_outcome wid)
  then show "\<exists>i'. outcome (boot e') = Inr i' \<and> whiteboardId i' = whiteboardId i" .
  from out obtain i' where "outcome (boot e') = Inr i'" "whiteboardId i' = whiteboardId i"
    by blast
  with plain get show "location (boot e') = None"
    by (simp add: boot_location_plain)
qed

lemma default_id_normal [simp]:
  "well_formed (lit ''myNewWhiteboard'')"
  "strip_non_id (lit ''myNewWhiteboard'') = lit ''myNewWhiteboard''"
  by (simp_all add: char_class_defs lit_Cons)

text \<open>
  When the identifier is empty (every character of the parameter was deleted by line
  29), the next run reads an empty parameter and falls back to the default name.
\<close>

lemma boot_after_empty:
  assumes ok: "outcome (boot e) = Inr i" and loc: "location (boot e) = Some ps"
    and emp: "whiteboardId i = []" and q: "query e' = ps"
  shows "\<exists>i'. outcome (boot e') = Inr i' \<and> whiteboardId i' = lit ''myNewWhiteboard''"
    and "location (boot e') = Some (usp_set (lit ''whiteboardid'') (lit ''myNewWhiteboard'') ps)"
proof -
  from boot_location_agrees [OF ok loc] q emp
  have get: "usp_get (lit ''whiteboardid'') (query e') = Some []"
    and plain: "\<not> random_mode e'"
    by (simp_all add: random_mode_def)
  then have raw: "raw_id e' = lit ''myNewWhiteboard''"
    by (simp add: raw_id_def pick_id_plain)
  then have out: "\<exists>i'. outcome (boot e') = Inr i' \<and> whiteboardId i' = lit ''myNewWhiteboard''"
    by (simp add: boot_outcome)
  then show "\<exists>i'. outcome (boot e') = Inr i' \<and> whiteboardId i' = lit ''myNewWhiteboard''" .
  from out obtain i' where "outcome (boot e') = Inr i'"
    "whiteboardId i' = lit ''myNewWhiteboard''"
    by blast
  with plain get q
  show "location (boot e') = Some (usp_set (lit ''whiteboardid'') (lit ''myNewWhiteboard'') ps)"
    by (simp add: boot_location_plain)
qed

text \<open>
  C8. The reload loop ends: if a run rewrites the location and the run after it rewrites
  it again, the third run assigns nothing; it runs under the default name, which is the
  only way a second rewrite can happen.
\<close>

theorem boot_settles:
  assumes "outcome (boot e1) = Inr i1" and "location (boot e1) = Some p1"
    and "query e2 = p1" and "location (boot e2) = Some p2" and "query e3 = p2"
  shows "location (boot e3) = None \<and>
         (\<exists>i3. outcome (boot e3) = Inr i3 \<and> whiteboardId i3 = lit ''myNewWhiteboard'')"
proof -
  have emp: "whiteboardId i1 = []"
  proof (rule ccontr)
    assume "whiteboardId i1 \<noteq> []"
    then have "location (boot e2) = None"
      by (rule boot_stable(1) [OF assms(1,2) _ assms(3)])
    with assms(4) show False by simp
  qed
  from boot_after_empty(1) [OF assms(1,2) emp assms(3)]
  obtain i2 where i2: "outcome (boot e2) = Inr i2" "whiteboardId i2 = lit ''myNewWhiteboard''"
    by blast
  then have ne: "whiteboardId i2 \<noteq> []"
    by simp
  from boot_stable [OF i2(1) assms(4) ne assms(5)] i2(2) show ?thesis
    by simp
qed

theorem boot_settles_witness:
  "location (boot (demo_env [(lit ''whiteboardid'', lit ''!!'')])) =
     Some [(lit ''whiteboardid'', [])] \<and>
   location (boot (demo_env [(lit ''whiteboardid'', [])])) =
     Some [(lit ''whiteboardid'', lit ''myNewWhiteboard'')] \<and>
   location (boot (demo_env [(lit ''whiteboardid'', lit ''myNewWhiteboard'')])) = None"
proof -
  let ?e1 = "demo_env [(lit ''whiteboardid'', lit ''!!'')]"
  let ?e2 = "demo_env [(lit ''whiteboardid'', [])]"
  let ?e3 = "demo_env [(lit ''whiteboardid'', lit ''myNewWhiteboard'')]"
  have o1: "outcome (boot ?e1) = Inr \<lparr>whiteboardId = [], myUsername = lit ''unknown7351'',
      accessToken = [], subdir = []\<rparr>"
    by (simp add: boot_eval demo_env_def)
  have l1: "location (boot ?e1) = Some [(lit ''whiteboardid'', [])]"
    by (simp add: boot_eval demo_env_def)
  have q2: "query ?e2 = [(lit ''whiteboardid'', [])]"
    by (simp add: demo_env_def)
  have l2: "location (boot ?e2) = Some [(lit ''whiteboardid'', lit ''myNewWhiteboard'')]"
    by (simp add: boot_eval demo_env_def)
  have q3: "query ?e3 = [(lit ''whiteboardid'', lit ''myNewWhiteboard'')]"
    by (simp add: demo_env_def)
  from boot_settles [OF o1 l1 q2 l2 q3] l1 l2 show ?thesis
    by simp
qed

text \<open>
  C34. Random mode: when \<^verbatim>\<open>randomid\<close> is present and not empty, the identifier is the
  normalised fresh UUID, and the location that is assigned no longer carries
  \<^verbatim>\<open>randomid\<close> and names the identifier, so that a reload keeps it.
\<close>

theorem boot_random:
  assumes "random_mode e" and "outcome (boot e) = Inr i"
  shows "whiteboardId i = strip_non_id (or_else (Some (uuid e)) (lit ''myNewWhiteboard'')) \<and>
         (\<exists>ps. location (boot e) = Some ps \<and>
               usp_get (lit ''randomid'') ps = None \<and>
               usp_get (lit ''whiteboardid'') ps = Some (whiteboardId i))"
proof -
  from assms have "whiteboardId i = strip_non_id (or_else (Some (uuid e)) (lit ''myNewWhiteboard''))"
    by (simp add: boot_outcome raw_id_def pick_id_random)
  moreover from assms obtain ps where ps: "location (boot e) = Some ps"
    by (simp add: boot_location_random)
  moreover from assms ps have "usp_get (lit ''randomid'') ps = None"
    by (auto simp: boot_location_random split: if_splits)
  moreover from assms(2) ps have "usp_get (lit ''whiteboardid'') ps = Some (whiteboardId i)"
    by (rule boot_location_agrees)
  ultimately show ?thesis by blast
qed

theorem boot_random_witness:
  "random_mode (demo_env [(lit ''randomid'', lit ''true''), (lit ''username'', lit ''ann'')]) \<and>
   (\<exists>i. outcome (boot (demo_env [(lit ''randomid'', lit ''true''), (lit ''username'', lit ''ann'')]))
          = Inr i \<and>
        whiteboardId i = lit ''1b9d6bcd-bbfd-4b2d-9b5d-ab8dfbbd4bed'') \<and>
   location (boot (demo_env [(lit ''randomid'', lit ''true''), (lit ''username'', lit ''ann'')])) =
     Some [(lit ''username'', lit ''ann''),
           (lit ''whiteboardid'', lit ''1b9d6bcd-bbfd-4b2d-9b5d-ab8dfbbd4bed'')]"
proof -
  let ?e = "demo_env [(lit ''randomid'', lit ''true''), (lit ''username'', lit ''ann'')]"
  have r: "random_mode ?e"
    by (simp add: random_mode_def demo_env_def)
  have o: "outcome (boot ?e) = Inr \<lparr>whiteboardId = lit ''1b9d6bcd-bbfd-4b2d-9b5d-ab8dfbbd4bed'',
      myUsername = lit ''ann'', accessToken = [], subdir = []\<rparr>"
    by (simp add: boot_eval demo_env_def)
  have l: "location (boot ?e) = Some [(lit ''username'', lit ''ann''),
           (lit ''whiteboardid'', lit ''1b9d6bcd-bbfd-4b2d-9b5d-ab8dfbbd4bed'')]"
    by (simp add: boot_eval demo_env_def)
  from boot_random [OF r o] r o l show ?thesis
    by simp
qed



text \<open>
  C36. The address bar and the client agree: when start-up returns, the query string the
  browser ends up with (the assigned location, or the present one when nothing was
  assigned) names exactly the identifier the client uses, and the identifier consists of
  letters, digits and hyphens.
\<close>

theorem boot_location_consistent:
  assumes "outcome (boot e) = Inr i"
  shows "usp_get (lit ''whiteboardid'')
           (case location (boot e) of None \<Rightarrow> query e | Some ps \<Rightarrow> ps) = Some (whiteboardId i) \<and>
         list_all id_char (whiteboardId i)"
proof -
  from assms have "list_all id_char (whiteboardId i)"
    by (simp add: boot_outcome strip_non_id_def)
  moreover have "usp_get (lit ''whiteboardid'')
      (case location (boot e) of None \<Rightarrow> query e | Some ps \<Rightarrow> ps) = Some (whiteboardId i)"
  proof (cases "location (boot e)")
    case None
    with assms show ?thesis
      by (cases "random_mode e")
         (auto simp: boot_location_random boot_location_plain split: if_splits)
  next
    case (Some ps)
    with assms show ?thesis
      by (simp add: boot_location_agrees)
  qed
  ultimately show ?thesis by simp
qed

theorem boot_location_consistent_witness:
  "outcome (boot (demo_env [(lit ''whiteboardid'', lit ''My Board!!'')])) =
     Inr \<lparr>whiteboardId = lit ''MyBoard'', myUsername = lit ''unknown7351'',
          accessToken = [], subdir = []\<rparr> \<and>
   location (boot (demo_env [(lit ''whiteboardid'', lit ''My Board!!'')])) =
     Some [(lit ''whiteboardid'', lit ''MyBoard'')] \<and>
   list_all id_char (lit ''MyBoard'')"
proof -
  let ?e = "demo_env [(lit ''whiteboardid'', lit ''My Board!!'')]"
  have o: "outcome (boot ?e) = Inr \<lparr>whiteboardId = lit ''MyBoard'',
      myUsername = lit ''unknown7351'', accessToken = [], subdir = []\<rparr>"
    by (simp add: boot_eval demo_env_def)
  have l: "location (boot ?e) = Some [(lit ''whiteboardid'', lit ''MyBoard'')]"
    by (simp add: boot_eval demo_env_def)
  from boot_location_consistent [OF o] o l show ?thesis
    by simp
qed

text \<open>
  C37. The default name is chosen before normalisation, not after it: a parameter that is
  not empty but consists only of characters that line 29 deletes leaves the client with
  the empty identifier for this page load.
\<close>

theorem boot_empty_identifier:
  assumes "\<not> random_mode e" and "usp_get (lit ''whiteboardid'') (query e) = Some v"
    and "v \<noteq> []" and "well_formed v" and "strip_non_id v = []"
  shows "\<exists>i. outcome (boot e) = Inr i \<and> whiteboardId i = []"
  using assms by (simp add: boot_outcome raw_id_def pick_id_plain)

theorem boot_empty_identifier_witness:
  "\<exists>i. outcome (boot (demo_env [(lit ''whiteboardid'', lit ''!!'')])) = Inr i \<and>
       whiteboardId i = []"
proof -
  let ?e = "demo_env [(lit ''whiteboardid'', lit ''!!'')]"
  have "\<not> random_mode ?e"
    by (simp add: random_mode_def demo_env_def)
  moreover have "usp_get (lit ''whiteboardid'') (query ?e) = Some (lit ''!!'')"
    by (simp add: demo_env_def)
  moreover have "lit ''!!'' \<noteq> []" "well_formed (lit ''!!'')" "strip_non_id (lit ''!!'') = []"
    by (simp_all add: char_class_defs lit_Cons)
  ultimately show ?thesis
    by (rule boot_empty_identifier)
qed


end
