(* ===== verification/Base64.thy ===== *)
theory Base64
  imports WB_Prelude
begin

text \<open>
  \<open>btoa\<close>, which \<^verbatim>\<open>main.js\<close> applies to the participant's name before it hands the name
  to the drawing surface (line 149): the Base64 encoding of a string whose code units
  are all bytes, and an \<open>InvalidCharacterError\<close> for any other string. The lemmas give
  the length and the alphabet of the result and say exactly when the call throws.
\<close>

definition b64_char :: "nat \<Rightarrow> jschar" where
  "b64_char n =
     (if n < 26 then 65 + n
      else if n < 52 then 97 + (n - 26)
      else if n < 62 then 48 + (n - 52)
      else if n = 62 then 43
      else 47)"

fun b64_encode :: "nat list \<Rightarrow> jsstring" where
  "b64_encode [] = []"
| "b64_encode [a] = [b64_char (a div 4), b64_char (a mod 4 * 16), 61, 61]"
| "b64_encode [a, b] =
     [b64_char (a div 4), b64_char (a mod 4 * 16 + b div 16), b64_char (b mod 16 * 4), 61]"
| "b64_encode (a # b # c # rest) =
     [b64_char (a div 4), b64_char (a mod 4 * 16 + b div 16),
      b64_char (b mod 16 * 4 + c div 64), b64_char (c mod 64)] @ b64_encode rest"

definition btoa :: "jsstring \<Rightarrow> js_error + jsstring" where
  "btoa s = (if list_all (\<lambda>c. c < 256) s then Inr (b64_encode s) else Inl InvalidCharacterError)"

definition b64_alphabet :: "jschar \<Rightarrow> bool" where
  "b64_alphabet c \<longleftrightarrow>
     (65 \<le> c \<and> c \<le> 90) \<or> (97 \<le> c \<and> c \<le> 122) \<or> (48 \<le> c \<and> c \<le> 57) \<or>
     c = 43 \<or> c = 47 \<or> c = 61"

lemma b64_char_alphabet [simp]: "b64_alphabet (b64_char n)"
  by (auto simp: b64_alphabet_def b64_char_def)

lemma b64_pad_alphabet [simp]: "b64_alphabet 61"
  by (simp add: b64_alphabet_def)

lemma b64_encode_alphabet: "list_all b64_alphabet (b64_encode bs)"
  by (induction bs rule: b64_encode.induct) simp_all

lemma length_b64_encode: "length (b64_encode bs) = 4 * ((length bs + 2) div 3)"
proof (induction bs rule: b64_encode.induct)
  case (4 a b c rest)
  have "(5 + length rest) div 3 = Suc ((length rest + 2) div 3)"
    by presburger
  with 4 show ?case by simp
qed simp_all

lemma btoa_Inr_iff: "btoa s = Inr t \<longleftrightarrow> list_all (\<lambda>c. c < 256) s \<and> t = b64_encode s"
  by (auto simp: btoa_def)

lemma btoa_Inl_iff:
  "btoa s = Inl e \<longleftrightarrow> \<not> list_all (\<lambda>c. c < 256) s \<and> e = InvalidCharacterError"
  by (auto simp: btoa_def)

lemma btoa_lit [simp]: "btoa (lit s) = Inr (b64_encode (lit s))"
  by (auto simp: btoa_def list_all_iff dest: lit_ascii)

lemma btoa_Man: "btoa (lit ''Man'') = Inr (lit ''TWFu'')"
  by (simp add: btoa_def b64_char_def lit_Cons)

text \<open>
  C39: When \<open>btoa\<close> returns, which it does exactly for strings of code units up to 255,
  the result has four characters for every three code units of the argument, rounded
  up, all from the Base64 alphabet.
\<close>

theorem btoa_shape:
  assumes "btoa s = Inr t"
  shows "list_all (\<lambda>c. c < 256) s \<and> length t = 4 * ((length s + 2) div 3) \<and>
     list_all b64_alphabet t"
  using assms by (auto simp: btoa_Inr_iff length_b64_encode b64_encode_alphabet)

theorem btoa_shape_witness:
  "btoa (lit ''anne'') = Inr (lit ''YW5uZQ=='') \<and> length (lit ''YW5uZQ=='') = 8 \<and>
   list_all b64_alphabet (lit ''YW5uZQ=='')"
proof -
  have "btoa (lit ''anne'') = Inr (lit ''YW5uZQ=='')"
    by (simp add: btoa_def b64_char_def lit_Cons)
  from btoa_shape [OF this] this show ?thesis
    by simp
qed

end
