(* ===== verification/Services.thy ===== *)
theory Services
  imports WB_Prelude
begin

text \<open>
  The three service objects that \<^verbatim>\<open>main.js\<close> imports and drives: \<open>ConfigService\<close>,
  \<open>InfoService\<close> and \<open>ReadOnlyService\<close>. Their code is not part of the sources at hand;
  they are modelled from the specification: the configuration is a snapshot that
  \<open>initFromServer\<close> replaces as a whole, the presence information holds the participant
  count pushed by the relay and two counters that only the client increments, and the
  read-only service is one flag. Each operation that \<^verbatim>\<open>main.js\<close> calls is one definition.
\<close>

section \<open>ConfigService\<close>

record config_service =
  readOnlyOnWhiteboardLoad :: bool
  displayInfoOnWhiteboardLoad :: bool
  isReadOnly :: bool
  backgroundGridImage :: jsstring
  correspondingReadOnlyWid :: jsstring

text \<open>The configuration before the first push: every field is \<open>undefined\<close>.\<close>

definition config_empty :: config_service where
  "config_empty =
     \<lparr>readOnlyOnWhiteboardLoad = False, displayInfoOnWhiteboardLoad = False,
      isReadOnly = False, backgroundGridImage = to_string JUndefined,
      correspondingReadOnlyWid = to_string JUndefined\<rparr>"

definition initFromServer :: "jsval \<Rightarrow> config_service" where
  "initFromServer serverResponse =
     \<lparr>readOnlyOnWhiteboardLoad = truthy (jget serverResponse ''readOnlyOnLoad''),
      displayInfoOnWhiteboardLoad = truthy (jget serverResponse ''displayInfoOnLoad''),
      isReadOnly = truthy (jget serverResponse ''isReadOnly''),
      backgroundGridImage = to_string (jget serverResponse ''backgroundGridImage''),
      correspondingReadOnlyWid =
        to_string (jget serverResponse ''correspondingReadOnlySessionId'')\<rparr>"

section \<open>InfoService\<close>

record info_service =
  nbConnectedUsers :: jsval
  nbMessagesSent :: nat
  nbMessagesReceived :: nat
  infoAreDisplayed :: bool

definition info_empty :: info_service where
  "info_empty =
     \<lparr>nbConnectedUsers = JUndefined, nbMessagesSent = 0, nbMessagesReceived = 0,
      infoAreDisplayed = False\<rparr>"

definition updateInfoFromServer :: "jsval \<Rightarrow> info_service \<Rightarrow> info_service" where
  "updateInfoFromServer info s = s\<lparr>nbConnectedUsers := jget info ''participantCount''\<rparr>"

definition incrementNbMessagesSent :: "info_service \<Rightarrow> info_service" where
  "incrementNbMessagesSent s = s\<lparr>nbMessagesSent := nbMessagesSent s + 1\<rparr>"

definition incrementNbMessagesReceived :: "info_service \<Rightarrow> info_service" where
  "incrementNbMessagesReceived s = s\<lparr>nbMessagesReceived := nbMessagesReceived s + 1\<rparr>"

definition displayInfo :: "info_service \<Rightarrow> info_service" where
  "displayInfo s = s\<lparr>infoAreDisplayed := True\<rparr>"

definition hideInfo :: "info_service \<Rightarrow> info_service" where
  "hideInfo s = s\<lparr>infoAreDisplayed := False\<rparr>"

lemmas info_defs [wb_defs] =
  updateInfoFromServer_def incrementNbMessagesSent_def incrementNbMessagesReceived_def
  displayInfo_def hideInfo_def

text \<open>The relay's pushes never touch the two counters.\<close>

lemma updateInfoFromServer_counters [simp]:
  "nbMessagesSent (updateInfoFromServer i s) = nbMessagesSent s"
  "nbMessagesReceived (updateInfoFromServer i s) = nbMessagesReceived s"
  by (simp_all add: updateInfoFromServer_def)

lemma increment_counters [simp]:
  "nbMessagesSent (incrementNbMessagesSent s) = Suc (nbMessagesSent s)"
  "nbMessagesReceived (incrementNbMessagesSent s) = nbMessagesReceived s"
  "nbMessagesReceived (incrementNbMessagesReceived s) = Suc (nbMessagesReceived s)"
  "nbMessagesSent (incrementNbMessagesReceived s) = nbMessagesSent s"
  by (simp_all add: info_defs)

lemma display_counters [simp]:
  "nbMessagesSent (displayInfo s) = nbMessagesSent s"
  "nbMessagesReceived (displayInfo s) = nbMessagesReceived s"
  "nbMessagesSent (hideInfo s) = nbMessagesSent s"
  "nbMessagesReceived (hideInfo s) = nbMessagesReceived s"
  by (simp_all add: info_defs)

lemma funpow_incrementNbMessagesReceived [simp]:
  "nbMessagesReceived ((incrementNbMessagesReceived ^^ n) s) = nbMessagesReceived s + n"
  "nbMessagesSent ((incrementNbMessagesReceived ^^ n) s) = nbMessagesSent s"
  by (induction n) simp_all

section \<open>ReadOnlyService\<close>

text \<open>
  The service is its flag \<open>readOnlyActive\<close>; the two operations set and clear it.
\<close>

definition activateReadOnlyMode :: "bool \<Rightarrow> bool" where
  "activateReadOnlyMode readOnlyActive = True"

definition deactivateReadOnlyMode :: "bool \<Rightarrow> bool" where
  "deactivateReadOnlyMode readOnlyActive = False"

lemmas readonly_defs [wb_defs] = activateReadOnlyMode_def deactivateReadOnlyMode_def

end
