(* ===== verification/Socket.thy ===== *)
theory Socket
  imports WB_Prelude
begin

text \<open>
  The event channel \<open>signaling_socket\<close> as \<^verbatim>\<open>main.js\<close> uses it: \<open>on\<close> adds a listener for
  a named event and never replaces one, \<open>emit\<close> hands a named message to the transport,
  and an event that arrives is given to every listener of its name, in the order of
  registration. The type of listeners is a parameter: the client supplies its own
  closures. Messages handed to the transport are kept in \<open>outbox\<close>, oldest first; what
  the transport does with them is outside the model.
\<close>

record 'h socket =
  listeners :: "(string \<times> 'h) list"
  outbox :: "(string \<times> jsval) list"

definition io :: "'h socket" where
  "io = \<lparr>listeners = [], outbox = []\<rparr>"

definition sock_on :: "string \<Rightarrow> 'h \<Rightarrow> 'h socket \<Rightarrow> 'h socket" where
  "sock_on name h s = s\<lparr>listeners := listeners s @ [(name, h)]\<rparr>"

definition sock_emit :: "string \<Rightarrow> jsval \<Rightarrow> 'h socket \<Rightarrow> 'h socket" where
  "sock_emit name payload s = s\<lparr>outbox := outbox s @ [(name, payload)]\<rparr>"

text \<open>The listeners an arriving event is given to, in order.\<close>

definition listeners_of :: "string \<Rightarrow> 'h socket \<Rightarrow> 'h list" where
  "listeners_of name s = map snd (filter (\<lambda>p. fst p = name) (listeners s))"

text \<open>The messages of one name that were handed to the transport, in order.\<close>

definition sent :: "string \<Rightarrow> 'h socket \<Rightarrow> jsval list" where
  "sent name s = map snd (filter (\<lambda>p. fst p = name) (outbox s))"

lemmas socket_defs = io_def sock_on_def sock_emit_def listeners_of_def sent_def

lemma listeners_of_io [simp]: "listeners_of name io = []"
  by (simp add: socket_defs)

lemma sent_io [simp]: "sent name io = []"
  by (simp add: socket_defs)

lemma listeners_of_on [simp]:
  "listeners_of name (sock_on name' h s) =
     (if name' = name then listeners_of name s @ [h] else listeners_of name s)"
  by (simp add: socket_defs)

lemma listeners_of_emit [simp]: "listeners_of name (sock_emit name' p s) = listeners_of name s"
  by (simp add: socket_defs)

lemma sent_emit [simp]:
  "sent name (sock_emit name' p s) = (if name' = name then sent name s @ [p] else sent name s)"
  by (simp add: socket_defs)

lemma sent_on [simp]: "sent name (sock_on name' h s) = sent name s"
  by (simp add: socket_defs)

lemma outbox_on [simp]: "outbox (sock_on name h s) = outbox s"
  by (simp add: socket_defs)

lemma listeners_emit [simp]: "listeners (sock_emit name p s) = listeners s"
  by (simp add: socket_defs)

lemma outbox_emit [simp]: "outbox (sock_emit name p s) = outbox s @ [(name, p)]"
  by (simp add: socket_defs)

lemma listeners_on [simp]: "listeners (sock_on name h s) = listeners s @ [(name, h)]"
  by (simp add: socket_defs)

lemma length_listeners_of_le: "length (listeners_of name s) \<le> length (listeners s)"
  by (simp add: socket_defs)

end
