(* ===== verification/Alerts.thy ===== *)
theory Alerts
  imports WB_Prelude
begin

text \<open>
  The notice dialog of \<^verbatim>\<open>main.js\<close>, \<open>showBasicAlert\<close> (lines 90 to 141), and the three
  callbacks it installs: the Ok button, the close button and the optional timer. The
  dialogs that are in the document are a list, oldest first; each has a number of its
  own. The type of the \<open>onOkClick\<close> callback is a parameter. The lemmas show that every
  operation keeps the numbers distinct and below the count of dialogs created, and what
  each click removes.
\<close>

section \<open>Options and dialogs\<close>

text \<open>
  \<open>hideAfter\<close> is a number of seconds, \<open>0\<close> standing for the default \<open>false\<close> (both are
  false as a condition). \<open>onOkClick\<close> is \<open>None\<close> for the default \<open>false\<close>.
\<close>

record 'cb alert_options =
  header :: jsstring
  okBtnText :: jsstring
  headercolor :: jsstring
  hideAfter :: nat
  onOkClick :: "'cb option"

text \<open>One property of the \<open>newOptions\<close> argument.\<close>

datatype 'cb alert_option =
    Header jsstring
  | OkBtnText jsstring
  | Headercolor jsstring
  | HideAfter nat
  | OnOkClick 'cb

text \<open>What is appended to the dialog: markup, or an element built by the caller.\<close>

datatype alert_html = Html jsstring | Element nat

record 'cb alert =
  alert_id :: nat
  options :: "'cb alert_options"
  htmlcontent :: alert_html

text \<open>
  \<open>alerts\<close> are the dialogs in the document, \<open>created\<close> counts the dialogs made so far,
  \<open>timers\<close> are the pending timers (dialog and delay in milliseconds), and \<open>shown\<close> is the
  record of what was put on the screen, oldest first: it is never read by the code.
\<close>

record 'cb alert_dom =
  alerts :: "'cb alert list"
  created :: nat
  timers :: "(nat \<times> nat) list"
  shown :: "alert_html list"

definition no_alerts :: "'cb alert_dom" where
  "no_alerts = \<lparr>alerts = [], created = 0, timers = [], shown = []\<rparr>"

section \<open>showBasicAlert\<close>

text \<open>Lines 91 to 97, the options a dialog has when the caller gives none.\<close>

abbreviation default_options :: "'cb alert_options" where
  "default_options \<equiv>
     \<lparr>header = lit ''INFO MESSAGE'', okBtnText = lit ''Ok'', headercolor = lit ''#d25d5d'',
      hideAfter = 0, onOkClick = None\<rparr>"

text \<open>Lines 98 to 102: \<^verbatim>\<open>for (var i in newOptions) options[i] = newOptions[i]\<close>.\<close>

fun set_option :: "'cb alert_options \<Rightarrow> 'cb alert_option \<Rightarrow> 'cb alert_options" where
  "set_option opts (Header s) = opts\<lparr>header := s\<rparr>"
| "set_option opts (OkBtnText s) = opts\<lparr>okBtnText := s\<rparr>"
| "set_option opts (Headercolor s) = opts\<lparr>headercolor := s\<rparr>"
| "set_option opts (HideAfter n) = opts\<lparr>hideAfter := n\<rparr>"
| "set_option opts (OnOkClick f) = opts\<lparr>onOkClick := Some f\<rparr>"

definition merge_options :: "'cb alert_option list \<Rightarrow> 'cb alert_options" where
  "merge_options newOptions = foldl set_option default_options newOptions"

definition showBasicAlert ::
  "alert_html \<Rightarrow> 'cb alert_option list \<Rightarrow> 'cb alert_dom \<Rightarrow> 'cb alert_dom" where
  "showBasicAlert html newOptions d =
     (let opts = merge_options newOptions;
          alertHtml = \<lparr>alert_id = created d, options = opts, htmlcontent = html\<rparr>
      in d\<lparr>alerts := alerts d @ [alertHtml],
           created := Suc (created d),
           timers := timers d @
             (if hideAfter opts \<noteq> 0 then [(created d, 1000 * hideAfter opts)] else []),
           shown := shown d @ [html]\<rparr>)"

section \<open>The callbacks\<close>

text \<open>\<open>alertHtml.remove()\<close>: the dialog leaves the document, with its handlers.\<close>

definition remove_alert :: "nat \<Rightarrow> 'cb alert_dom \<Rightarrow> 'cb alert_dom" where
  "remove_alert k d = d\<lparr>alerts := filter (\<lambda>a. alert_id a \<noteq> k) (alerts d)\<rparr>"

definition find_alert :: "nat \<Rightarrow> 'cb alert_dom \<Rightarrow> 'cb alert option" where
  "find_alert k d = find (\<lambda>a. alert_id a = k) (alerts d)"

text \<open>
  Lines 120 to 128, a click on the Ok button of dialog \<open>k\<close>: the callback to run, if the
  options hold one, and the document without the dialog. A dialog that was removed has
  no handler left.
\<close>

definition ok_click :: "nat \<Rightarrow> 'cb alert_dom \<Rightarrow> 'cb option \<times> 'cb alert_dom" where
  "ok_click k d =
     (case find_alert k d of
        None \<Rightarrow> (None, d)
      | Some a \<Rightarrow> (onOkClick (options a), remove_alert k d))"

text \<open>Lines 129 to 134, a click on the close button.\<close>

definition close_click :: "nat \<Rightarrow> 'cb alert_dom \<Rightarrow> 'cb alert_dom" where
  "close_click k d = remove_alert k d"

text \<open>Lines 136 to 140, the timer of dialog \<open>k\<close> fires: it clicks the Ok button.\<close>

definition timer_fires :: "nat \<Rightarrow> 'cb alert_dom \<Rightarrow> 'cb option \<times> 'cb alert_dom" where
  "timer_fires k d =
     (if k \<in> fst ` set (timers d)
      then ok_click k (d\<lparr>timers := filter (\<lambda>t. fst t \<noteq> k) (timers d)\<rparr>)
      else (None, d))"

text \<open>\<^verbatim>\<open>$(".basicalert").length > 0\<close> and \<^verbatim>\<open>$(".basicalert").remove()\<close>.\<close>

definition alert_open :: "'cb alert_dom \<Rightarrow> bool" where
  "alert_open d \<longleftrightarrow> alerts d \<noteq> []"

definition remove_all_alerts :: "'cb alert_dom \<Rightarrow> 'cb alert_dom" where
  "remove_all_alerts d = d\<lparr>alerts := []\<rparr>"

lemmas alert_defs =
  showBasicAlert_def remove_alert_def find_alert_def ok_click_def close_click_def
  timer_fires_def alert_open_def remove_all_alerts_def

section \<open>Well-formed documents\<close>

definition alerts_wf :: "'cb alert_dom \<Rightarrow> bool" where
  "alerts_wf d \<longleftrightarrow>
     distinct (map alert_id (alerts d)) \<and>
     list_all (\<lambda>a. alert_id a < created d) (alerts d) \<and>
     list_all (\<lambda>t. fst t < created d) (timers d) \<and>
     length (shown d) = created d"

lemma alerts_wf_empty [simp]: "alerts_wf no_alerts"
  by (simp add: alerts_wf_def no_alerts_def)

lemma alerts_wf_show [intro]: "alerts_wf d \<Longrightarrow> alerts_wf (showBasicAlert html os d)"
  by (auto simp: alerts_wf_def showBasicAlert_def Let_def list_all_iff)

lemma alerts_wf_remove [intro]: "alerts_wf d \<Longrightarrow> alerts_wf (remove_alert k d)"
  by (auto simp: alerts_wf_def remove_alert_def list_all_iff distinct_map_filter)

lemma alerts_wf_ok [intro]: "alerts_wf d \<Longrightarrow> alerts_wf (snd (ok_click k d))"
  by (auto simp: ok_click_def split: option.splits)

lemma alerts_wf_close [intro]: "alerts_wf d \<Longrightarrow> alerts_wf (close_click k d)"
  by (auto simp: close_click_def)

lemma alerts_wf_timers:
  "alerts_wf d \<Longrightarrow> alerts_wf (d\<lparr>timers := filter P (timers d)\<rparr>)"
  by (auto simp: alerts_wf_def list_all_iff)

lemma alerts_wf_timer [intro]: "alerts_wf d \<Longrightarrow> alerts_wf (snd (timer_fires k d))"
  by (auto simp: timer_fires_def intro!: alerts_wf_ok alerts_wf_timers)

lemma alerts_wf_remove_all [intro]: "alerts_wf d \<Longrightarrow> alerts_wf (remove_all_alerts d)"
  by (auto simp: alerts_wf_def remove_all_alerts_def)

section \<open>What the operations do\<close>

lemma created_show [simp]: "created (showBasicAlert html os d) = Suc (created d)"
  by (simp add: showBasicAlert_def Let_def)

lemma length_alerts_show [simp]:
  "length (alerts (showBasicAlert html os d)) = Suc (length (alerts d))"
  by (simp add: showBasicAlert_def Let_def)

lemma alerts_show:
  "alerts (showBasicAlert html os d) =
     alerts d @ [\<lparr>alert_id = created d, options = merge_options os, htmlcontent = html\<rparr>]"
  by (simp add: showBasicAlert_def Let_def)

lemma merge_options_Nil [simp]: "merge_options [] = default_options"
  by (simp add: merge_options_def)

lemma shown_show [simp]: "shown (showBasicAlert html os d) = shown d @ [html]"
  by (simp add: showBasicAlert_def Let_def)

lemma shown_remove [simp]: "shown (remove_alert k d) = shown d"
  by (simp add: remove_alert_def)

lemma shown_ok [simp]: "shown (snd (ok_click k d)) = shown d"
  by (simp add: ok_click_def split: option.splits)

lemma shown_close [simp]: "shown (close_click k d) = shown d"
  by (simp add: close_click_def)

lemma shown_timer [simp]: "shown (snd (timer_fires k d)) = shown d"
  by (simp add: timer_fires_def)

lemma created_remove [simp]: "created (remove_alert k d) = created d"
  by (simp add: remove_alert_def)

lemma created_ok [simp]: "created (snd (ok_click k d)) = created d"
  by (simp add: ok_click_def split: option.splits)

lemma created_close [simp]: "created (close_click k d) = created d"
  by (simp add: close_click_def)

lemma created_timer [simp]: "created (snd (timer_fires k d)) = created d"
  by (simp add: timer_fires_def)

lemma find_alert_remove [simp]: "find_alert k (remove_alert k d) = None"
  by (simp add: find_alert_def remove_alert_def find_None_iff)

lemma remove_alert_idem [simp]: "remove_alert k (remove_alert k d) = remove_alert k d"
  by (simp add: remove_alert_def)

lemma ok_click_absent: "find_alert k d = None \<Longrightarrow> ok_click k d = (None, d)"
  by (simp add: ok_click_def)

lemma find_alert_fresh:
  "alerts_wf d \<Longrightarrow> find_alert (created d) d = None"
  by (auto simp: alerts_wf_def find_alert_def find_None_iff list_all_iff)

lemma find_alert_show_new:
  assumes "alerts_wf d"
  shows "find_alert (created d) (showBasicAlert html os d) =
     Some \<lparr>alert_id = created d, options = merge_options os, htmlcontent = html\<rparr>"
proof -
  from assms have "find (\<lambda>a. alert_id a = created d) (alerts d) = None"
    using find_alert_fresh [of d] by (simp add: find_alert_def)
  then show ?thesis
    by (simp add: find_alert_def alerts_show find_append)
qed

lemma ok_click_show_new:
  assumes "alerts_wf d"
  shows "ok_click (created d) (showBasicAlert html os d) =
     (onOkClick (merge_options os),
      d\<lparr>created := Suc (created d),
        timers := timers d @
          (if hideAfter (merge_options os) \<noteq> 0
           then [(created d, 1000 * hideAfter (merge_options os))] else []),
        shown := shown d @ [html]\<rparr>)"
proof -
  from assms have "filter (\<lambda>a. alert_id a \<noteq> created d) (alerts d) = alerts d"
    by (auto simp: alerts_wf_def list_all_iff filter_id_conv)
  then show ?thesis
    by (simp add: ok_click_def find_alert_show_new [OF assms])
      (simp add: remove_alert_def showBasicAlert_def Let_def)
qed

section \<open>A dialog to evaluate on\<close>

definition demo_alert :: "nat alert_dom" where
  "demo_alert = showBasicAlert (Html (lit ''first'')) [] no_alerts"

lemma demo_alert_wf [simp]: "alerts_wf demo_alert"
  by (auto simp: demo_alert_def)

section \<open>Showing and dismissing\<close>

text \<open>
  C27: A click on the Ok button of a dialog that was just shown runs the callback given
  as \<open>onOkClick\<close>, if one was given, and takes exactly this dialog out of the document:
  the dialogs that were there before are there after, in their order.
\<close>

theorem ok_click_removes:
  assumes "alerts_wf d"
  shows "fst (ok_click (created d) (showBasicAlert html os d)) = onOkClick (merge_options os) \<and>
     alerts (snd (ok_click (created d) (showBasicAlert html os d))) = alerts d"
  by (simp add: ok_click_show_new [OF assms])

theorem ok_click_removes_witness:
  "fst (ok_click 1 (showBasicAlert (Html (lit ''second'')) [OnOkClick 7] demo_alert)) = Some 7 \<and>
   map alert_id
     (alerts (snd (ok_click 1 (showBasicAlert (Html (lit ''second'')) [OnOkClick 7] demo_alert)))) =
     [0]"
proof -
  have "created demo_alert = 1" "map alert_id (alerts demo_alert) = [0]"
    by (simp_all add: demo_alert_def showBasicAlert_def no_alerts_def)
  with ok_click_removes [OF demo_alert_wf, of "Html (lit ''second'')" "[OnOkClick 7]"]
  show ?thesis
    by (simp add: merge_options_def)
qed

text \<open>
  C28: The timer of a dialog that was dismissed by a click does nothing when it fires:
  the callback given as \<open>onOkClick\<close> is not run a second time and no dialog is removed.
\<close>

theorem timer_after_click:
  assumes "alerts_wf d"
  shows "fst (timer_fires (created d)
             (snd (ok_click (created d) (showBasicAlert html os d)))) = None \<and>
     alerts (snd (timer_fires (created d)
             (snd (ok_click (created d) (showBasicAlert html os d))))) = alerts d"
proof -
  let ?d = "snd (ok_click (created d) (showBasicAlert html os d))"
  have a: "alerts ?d = alerts d"
    by (simp add: ok_click_show_new [OF assms])
  then have "find_alert (created d) (?d\<lparr>timers := ts\<rparr>) = None" for ts
    using find_alert_fresh [OF assms] by (simp add: find_alert_def)
  then have "ok_click (created d) (?d\<lparr>timers := ts\<rparr>) = (None, ?d\<lparr>timers := ts\<rparr>)" for ts
    by (rule ok_click_absent)
  then show ?thesis
    using a by (simp add: timer_fires_def)
qed

theorem timer_after_click_witness:
  "fst (timer_fires 1 (snd (ok_click 1
     (showBasicAlert (Html (lit ''second'')) [OnOkClick 7, HideAfter 3] demo_alert)))) = None"
proof -
  have "created demo_alert = 1"
    by (simp add: demo_alert_def showBasicAlert_def no_alerts_def)
  with timer_after_click
    [OF demo_alert_wf, of "Html (lit ''second'')" "[OnOkClick 7, HideAfter 3]"]
  show ?thesis
    by simp
qed

text \<open>
  C29: A dialog shown with \<open>hideAfter\<close> set to \<open>n\<close> seconds dismisses itself: one timer of
  \<open>1000 * n\<close> milliseconds is set, and when it fires the callback given as \<open>onOkClick\<close>
  runs and the dialog leaves the document.
\<close>

theorem hide_after:
  assumes "alerts_wf d" and "hideAfter (merge_options os) \<noteq> 0"
  shows "timers (showBasicAlert html os d) =
       timers d @ [(created d, 1000 * hideAfter (merge_options os))] \<and>
     fst (timer_fires (created d) (showBasicAlert html os d)) = onOkClick (merge_options os) \<and>
     alerts (snd (timer_fires (created d) (showBasicAlert html os d))) = alerts d"
proof -
  let ?d = "showBasicAlert html os d"
  let ?t = "filter (\<lambda>t. fst t \<noteq> created d) (timers ?d)"
  from assms(2) have t: "timers ?d = timers d @ [(created d, 1000 * hideAfter (merge_options os))]"
    by (simp add: showBasicAlert_def Let_def)
  from assms(1) have "find_alert (created d) (?d\<lparr>timers := ?t\<rparr>) =
      Some \<lparr>alert_id = created d, options = merge_options os, htmlcontent = html\<rparr>"
    using find_alert_show_new [OF assms(1), of html os] by (simp add: find_alert_def)
  moreover from assms(1) have "filter (\<lambda>a. alert_id a \<noteq> created d) (alerts d) = alerts d"
    by (auto simp: alerts_wf_def list_all_iff filter_id_conv)
  ultimately show ?thesis
    using t by (simp add: timer_fires_def ok_click_def remove_alert_def alerts_show)
qed

theorem hide_after_witness:
  "timers (showBasicAlert (Html (lit ''second'')) [OnOkClick 7, HideAfter 3] demo_alert) =
     [(1, 3000)] \<and>
   fst (timer_fires 1
     (showBasicAlert (Html (lit ''second'')) [OnOkClick 7, HideAfter 3] demo_alert)) = Some 7"
proof -
  have "created demo_alert = 1" "timers demo_alert = []"
    by (simp_all add: demo_alert_def showBasicAlert_def no_alerts_def)
  moreover have "hideAfter (merge_options [OnOkClick (7::nat), HideAfter 3]) \<noteq> 0"
    by (simp add: merge_options_def)
  ultimately show ?thesis
    using hide_after [OF demo_alert_wf, of "[OnOkClick 7, HideAfter 3]" "Html (lit ''second'')"]
    by (simp add: merge_options_def)
qed

end
