(* ===== verification/Client_State.thy ===== *)
theory Client_State
  imports Session_Identity Base64 Services Socket Alerts
begin

text \<open>
  The state of the running client and what can happen to it. \<open>client\<close> holds the
  module-level constants fixed at start-up, the state of every object that \<^verbatim>\<open>main.js\<close>
  owns or drives (the socket with its listeners, the closure variables \<open>accessDenied\<close>,
  the three services, the notice dialogs), a log of the calls made to the drawing surface
  and of the HTTP requests issued, and the callbacks that are scheduled but have not run.
  \<open>event\<close> lists what the browser, the relay, the drawing surface and the user can do to
  the client; the handlers of \<^verbatim>\<open>main.js\<close> are the reactions, defined in \<open>Sync_Engine\<close>.
\<close>

section \<open>The drawing surface\<close>

text \<open>
  The drawing surface \<open>whiteboard\<close> and the shortcut functions are outside collaborators:
  the model records the calls \<^verbatim>\<open>main.js\<close> makes to them, in order, with their arguments.
\<close>

datatype wb_call =
    LoadWhiteboard jsstring jsstring jsstring
  | LoadData jsval
  | HandleEventsAndData jsval bool
  | UpdateSmallestScreenResolution
  | RefreshUserBadges
  | SetTool_mouse
  | RefreshCursorAppearance
  | ClearWhiteboard
  | UndoWhiteboardClick
  | RedoWhiteboardClick
  | SetTool jsstring
  | SetStrokeThickness jsstring
  | SetDrawColor jsstring
  | DropIndicatorShow
  | DropIndicatorHide
  | AddImgToCanvasByUrl jsstring

section \<open>Listeners on the socket\<close>

text \<open>
  The closures that \<^verbatim>\<open>main\<close> registers on the socket. The listener for
  \<^verbatim>\<open>wrongAccessToken\<close> closes over the variable \<open>accessDenied\<close> of the invocation of the
  \<^verbatim>\<open>connect\<close> listener that created it: the number says which.
\<close>

datatype listener =
    On_connect
  | On_whiteboardConfig
  | On_whiteboardInfoUpdate
  | On_drawToWhiteboard
  | On_refreshUserBadges
  | On_wrongAccessToken nat

section \<open>The client\<close>

record client =
  ident :: identity
  production :: bool
  window_size :: "int \<times> int"
  signaling_socket :: "listener socket"
  accessDenied :: "bool list"
  config :: config_service
  info :: info_service
  readOnlyActive :: bool
  wb_calls :: "wb_call list"
  sendFunction_set :: bool
  ready_queue :: nat
  requests :: "(jsstring \<times> jsval) list"
  awaiting :: nat
  resize_handlers :: nat
  window_listeners :: "string list"
  dom :: "unit alert_dom"
  uncaught :: "js_error list"

text \<open>
  The client when the module has been evaluated and \<^verbatim>\<open>main\<close> has not been called: no
  socket listeners, empty services, nothing scheduled.
\<close>

definition client_init :: "identity \<Rightarrow> bool \<Rightarrow> int \<times> int \<Rightarrow> client" where
  "client_init i is_production wh =
     \<lparr>ident = i, production = is_production, window_size = wh,
      signaling_socket = io, accessDenied = [],
      config = config_empty, info = info_empty, readOnlyActive = False,
      wb_calls = [], sendFunction_set = False,
      ready_queue = 0, requests = [], awaiting = 0, resize_handlers = 0,
      window_listeners = [], dom = no_alerts, uncaught = []\<rparr>"

section \<open>Events\<close>

text \<open>
  \<open>Connect\<close>: the transport has connected or reconnected. \<open>Receive\<close>: a message of the
  relay arrives. \<open>DocumentReady\<close>: jQuery runs the oldest queued ready callback.
  \<open>LoadResponse\<close>: the response to the oldest open request for the whiteboard's content
  arrives. \<open>WindowResize\<close>: the window has a new size. \<open>LocalDraw\<close>: the drawing surface
  hands a local mutation to the send function it was given. The last three are clicks
  on a notice dialog and its timer.
\<close>

datatype event =
    Connect
  | Receive string jsval
  | DocumentReady
  | LoadResponse jsval
  | WindowResize int int
  | LocalDraw jsval
  | AlertOk nat
  | AlertClose nat
  | AlertTimer nat

section \<open>Primitive state changes\<close>

definition listen :: "string \<Rightarrow> listener \<Rightarrow> client \<Rightarrow> client" where
  "listen name h c = c\<lparr>signaling_socket := sock_on name h (signaling_socket c)\<rparr>"

definition emit :: "string \<Rightarrow> jsval \<Rightarrow> client \<Rightarrow> client" where
  "emit name payload c = c\<lparr>signaling_socket := sock_emit name payload (signaling_socket c)\<rparr>"

definition whiteboard :: "wb_call \<Rightarrow> client \<Rightarrow> client" where
  "whiteboard call c = c\<lparr>wb_calls := wb_calls c @ [call]\<rparr>"

definition basic_alert :: "jsstring \<Rightarrow> client \<Rightarrow> client" where
  "basic_alert html c = c\<lparr>dom := showBasicAlert (Html html) [] (dom c)\<rparr>"

definition throw :: "js_error \<Rightarrow> client \<Rightarrow> client" where
  "throw e c = c\<lparr>uncaught := uncaught c @ [e]\<rparr>"

lemmas prim_defs = listen_def emit_def whiteboard_def basic_alert_def throw_def

text \<open>What the relay has been sent under one name.\<close>

definition emitted :: "string \<Rightarrow> client \<Rightarrow> jsval list" where
  "emitted name c = sent name (signaling_socket c)"

definition handlers :: "string \<Rightarrow> client \<Rightarrow> listener list" where
  "handlers name c = listeners_of name (signaling_socket c)"

end
