(* ===== verification/Sync_Engine.thy ===== *)
theory Sync_Engine
  imports Client_State
begin

text \<open>
  The protocol core of \<^verbatim>\<open>main.js\<close>: \<open>main\<close> and the listeners it registers on the socket
  (lines 48 to 88), \<open>initWhiteboard\<close> and the part of its ready callback that loads the
  drawing surface, requests the whiteboard's content, reports the window size and sets
  the read-only mode (lines 143 to 175 and 447 to 465), and the send function handed to
  the drawing surface (lines 151 to 160). One definition per function or callback of the
  source, in the order of the source; \<open>step\<close> is the reaction of the client to one
  event, \<open>run\<close> to a sequence of events.
\<close>

section \<open>\<open>main\<close> and the listeners on the socket\<close>

definition window_payload :: "client \<Rightarrow> jsval" where
  "window_payload c =
     JObj [(''w'', JNum (fst (window_size c))), (''h'', JNum (snd (window_size c)))]"

definition join_message :: "client \<Rightarrow> jsval" where
  "join_message c =
     JObj [(''wid'', JStr (whiteboardId (ident c))),
           (''at'', JStr (accessToken (ident c))),
           (''windowWidthHeight'', window_payload c)]"

text \<open>
  Lines 51 to 87, the listener for \<^verbatim>\<open>connect\<close>. It runs on every connection of the
  transport, the first one and every reconnection, and registers the five listeners
  each time; the variable \<open>accessDenied\<close> is a new one each time.
\<close>

definition on_connect :: "client \<Rightarrow> client" where
  "on_connect =
     seq [listen ''whiteboardConfig'' On_whiteboardConfig,
          listen ''whiteboardInfoUpdate'' On_whiteboardInfoUpdate,
          listen ''drawToWhiteboard'' On_drawToWhiteboard,
          listen ''refreshUserBadges'' On_refreshUserBadges,
          (\<lambda>c. listen ''wrongAccessToken'' (On_wrongAccessToken (length (accessDenied c)))
                 (c\<lparr>accessDenied := accessDenied c @ [False]\<rparr>)),
          (\<lambda>c. emit ''joinWhiteboard'' (join_message c) c)]"

text \<open>
  Lines 467 to 484: two listeners on the window keep the browser from opening a dropped
  file. Line 545: the listener for \<^verbatim>\<open>paste\<close> is added to the window.
\<close>

definition prevent_tab_change :: "client \<Rightarrow> client" where
  "prevent_tab_change c = c\<lparr>window_listeners := window_listeners c @ [''dragover'', ''drop'']\<rparr>"

definition listen_paste :: "client \<Rightarrow> client" where
  "listen_paste c = c\<lparr>window_listeners := window_listeners c @ [''paste'']\<rparr>"

text \<open>
  Lines 143 to 578 outside the ready callback: \<open>initWhiteboard\<close> queues the callback and
  adds the three listeners to the window.
\<close>

definition initWhiteboard :: "client \<Rightarrow> client" where
  "initWhiteboard =
     seq [(\<lambda>c. c\<lparr>ready_queue := Suc (ready_queue c)\<rparr>), prevent_tab_change, listen_paste]"

text \<open>Lines 54 to 58.\<close>

definition on_whiteboardConfig :: "jsval \<Rightarrow> client \<Rightarrow> client" where
  "on_whiteboardConfig serverResponse =
     seq [(\<lambda>c. c\<lparr>config := initFromServer serverResponse\<rparr>),
          initWhiteboard]"

text \<open>Lines 60 to 63.\<close>

definition on_whiteboardInfoUpdate :: "jsval \<Rightarrow> client \<Rightarrow> client" where
  "on_whiteboardInfoUpdate i =
     seq [(\<lambda>c. c\<lparr>info := updateInfoFromServer i (info c)\<rparr>),
          whiteboard UpdateSmallestScreenResolution]"

text \<open>Lines 65 to 68.\<close>

definition on_drawToWhiteboard :: "jsval \<Rightarrow> client \<Rightarrow> client" where
  "on_drawToWhiteboard content =
     seq [whiteboard (HandleEventsAndData content True),
          (\<lambda>c. c\<lparr>info := incrementNbMessagesReceived (info c)\<rparr>)]"

text \<open>Lines 70 to 72.\<close>

definition on_refreshUserBadges :: "client \<Rightarrow> client" where
  "on_refreshUserBadges = whiteboard RefreshUserBadges"

text \<open>
  Lines 75 to 80. The listener reads and writes the variable \<open>accessDenied\<close> it closed
  over, the one with number \<open>k\<close>; every listener that exists has its variable.
\<close>

definition on_wrongAccessToken :: "nat \<Rightarrow> client \<Rightarrow> client" where
  "on_wrongAccessToken k c =
     (if k < length (accessDenied c) \<and> \<not> accessDenied c ! k
      then basic_alert (lit ''Access denied! Wrong accessToken!'')
             (c\<lparr>accessDenied := (accessDenied c)[k := True]\<rparr>)
      else c)"

text \<open>Lines 48 to 50 and 88: \<open>main\<close> opens the socket and registers the \<^verbatim>\<open>connect\<close> listener.\<close>

definition main :: "client \<Rightarrow> client" where
  "main c = c\<lparr>signaling_socket := sock_on ''connect'' On_connect io\<rparr>"

section \<open>The send function\<close>

text \<open>
  Lines 151 to 160, \<open>sendFunction\<close>: the one place through which local mutations of the
  drawing surface reach the relay. The assignment \<^verbatim>\<open>content["at"] = accessToken\<close> throws
  when \<open>content\<close> is not an object, before anything is emitted.
\<close>

definition sendFunction :: "jsval \<Rightarrow> client \<Rightarrow> js_error + client" where
  "sendFunction content c =
     (if readOnlyActive c then Inr c
      else on_result
             (\<lambda>content'.
                seq [emit ''drawToWhiteboard'' content',
                     (\<lambda>c. c\<lparr>info := incrementNbMessagesSent (info c)\<rparr>)] c)
             (jset content ''at'' (JStr (accessToken (ident c)))))"

section \<open>The ready callback\<close>

text \<open>Lines 146 to 161: the drawing surface is loaded and given the send function.\<close>

definition load_whiteboard :: "client \<Rightarrow> js_error + client" where
  "load_whiteboard c =
     on_result
       (\<lambda>username.
          (whiteboard
             (LoadWhiteboard (whiteboardId (ident c)) username
                (lit ''./images/'' @ backgroundGridImage (config c))) c)
          \<lparr>sendFunction_set := True\<rparr>)
       (btoa (myUsername (ident c)))"

text \<open>Lines 164 to 168: the request for the whiteboard's content.\<close>

definition request_whiteboard :: "client \<Rightarrow> client" where
  "request_whiteboard c =
     c\<lparr>requests := requests c @
          [(subdir (ident c) @ lit ''/api/loadwhiteboard'',
            JObj [(''wid'', JStr (whiteboardId (ident c))),
                  (''at'', JStr (accessToken (ident c)))])],
       awaiting := Suc (awaiting c)\<rparr>"

text \<open>Lines 165 to 167, the callback of the request.\<close>

definition on_loaded :: "jsval \<Rightarrow> client \<Rightarrow> client" where
  "on_loaded data c =
     (if awaiting c = 0 then c
      else whiteboard (LoadData data) (c\<lparr>awaiting := awaiting c - 1\<rparr>))"

text \<open>Lines 170 to 175: the resize handler is registered; lines 171 to 174 are the handler.\<close>

definition register_resize :: "client \<Rightarrow> client" where
  "register_resize c = c\<lparr>resize_handlers := Suc (resize_handlers c)\<rparr>"

definition on_resize :: "client \<Rightarrow> client" where
  "on_resize c =
     emit ''updateScreenResolution''
       (JObj [(''at'', JStr (accessToken (ident c))),
              (''windowWidthHeight'', window_payload c)]) c"

text \<open>Lines 447 to 450.\<close>

definition select_mouse :: "client \<Rightarrow> client" where
  "select_mouse = seq [whiteboard SetTool_mouse, whiteboard RefreshCursorAppearance]"

text \<open>Lines 452 to 465: the read-only mode and the information display at start.\<close>

definition setup_read_only :: "client \<Rightarrow> client" where
  "setup_read_only =
     seq [(\<lambda>c. if production c
               then c\<lparr>readOnlyActive :=
                        (if readOnlyOnWhiteboardLoad (config c)
                         then activateReadOnlyMode (readOnlyActive c)
                         else deactivateReadOnlyMode (readOnlyActive c)),
                      info :=
                        (if displayInfoOnWhiteboardLoad (config c)
                         then displayInfo (info c) else hideInfo (info c))\<rparr>
               else c\<lparr>readOnlyActive := deactivateReadOnlyMode (readOnlyActive c),
                      info := displayInfo (info c)\<rparr>),
          (\<lambda>c. if isReadOnly (config c)
               then c\<lparr>readOnlyActive := activateReadOnlyMode (readOnlyActive c)\<rparr>
               else c)]"

text \<open>
  Lines 144 to 466 in the order of the source. The argument of \<open>loadWhiteboard\<close> is
  evaluated first; when \<open>btoa\<close> throws there, nothing of the callback has happened.
\<close>

definition whiteboard_ready :: "client \<Rightarrow> js_error + client" where
  "whiteboard_ready c =
     on_result (seq [request_whiteboard, register_resize, select_mouse, setup_read_only])
       (load_whiteboard c)"

section \<open>The reaction to an event\<close>

fun run_listener :: "listener \<Rightarrow> jsval \<Rightarrow> client \<Rightarrow> client" where
  "run_listener On_connect p = on_connect"
| "run_listener On_whiteboardConfig p = on_whiteboardConfig p"
| "run_listener On_whiteboardInfoUpdate p = on_whiteboardInfoUpdate p"
| "run_listener On_drawToWhiteboard p = on_drawToWhiteboard p"
| "run_listener On_refreshUserBadges p = on_refreshUserBadges"
| "run_listener (On_wrongAccessToken k) p = on_wrongAccessToken k"

text \<open>
  An arriving event is given to the listeners that are registered under its name when
  it arrives, in the order of their registration.
\<close>

definition deliver :: "string \<Rightarrow> jsval \<Rightarrow> client \<Rightarrow> client" where
  "deliver name payload c = seq (map (\<lambda>h. run_listener h payload) (handlers name c)) c"

text \<open>An exception that leaves a callback is reported and the callback's work is lost.\<close>

definition uncaught_in :: "client \<Rightarrow> js_error + client \<Rightarrow> client" where
  "uncaught_in c r = (case r of Inl e \<Rightarrow> throw e c | Inr c' \<Rightarrow> c')"

fun step :: "client \<Rightarrow> event \<Rightarrow> client" where
  "step c Connect = deliver ''connect'' JUndefined c"
| "step c (Receive name payload) = (if name = ''connect'' then c else deliver name payload c)"
| "step c DocumentReady =
     (if ready_queue c = 0 then c
      else let c' = c\<lparr>ready_queue := ready_queue c - 1\<rparr>
           in uncaught_in c' (whiteboard_ready c'))"
| "step c (LoadResponse data) = on_loaded data c"
| "step c (WindowResize w h) =
     seq (replicate (resize_handlers c) on_resize) (c\<lparr>window_size := (w, h)\<rparr>)"
| "step c (LocalDraw content) =
     (if sendFunction_set c then uncaught_in c (sendFunction content c) else c)"
| "step c (AlertOk k) = c\<lparr>dom := snd (ok_click k (dom c))\<rparr>"
| "step c (AlertClose k) = c\<lparr>dom := close_click k (dom c)\<rparr>"
| "step c (AlertTimer k) = c\<lparr>dom := snd (timer_fires k (dom c))\<rparr>"

definition run :: "client \<Rightarrow> event list \<Rightarrow> client" where
  "run c evs = foldl step c evs"

lemma run_Nil [simp]: "run c [] = c"
  by (simp add: run_def)

lemma run_Cons [simp]: "run c (e # es) = run (step c e) es"
  by (simp add: run_def)

lemma run_append [simp]: "run c (es @ fs) = run (run c es) fs"
  by (simp add: run_def)

lemma run_snoc: "run c (es @ [e]) = step (run c es) e"
  by simp

text \<open>The client from which every execution starts: \<^verbatim>\<open>main\<close> has been called.\<close>

definition start :: "identity \<Rightarrow> bool \<Rightarrow> int \<times> int \<Rightarrow> client" where
  "start i is_production wh = main (client_init i is_production wh)"

lemmas handler_defs =
  on_connect_def on_whiteboardConfig_def initWhiteboard_def prevent_tab_change_def
  listen_paste_def on_whiteboardInfoUpdate_def
  on_drawToWhiteboard_def on_refreshUserBadges_def on_wrongAccessToken_def main_def
  sendFunction_def load_whiteboard_def request_whiteboard_def on_loaded_def
  register_resize_def on_resize_def select_mouse_def setup_read_only_def
  whiteboard_ready_def deliver_def uncaught_in_def start_def

section \<open>The listeners in closed form\<close>

text \<open>The five listeners that one run of the \<^verbatim>\<open>connect\<close> listener registers.\<close>

definition connection_listeners :: "nat \<Rightarrow> (string \<times> listener) list" where
  "connection_listeners k =
     [(''whiteboardConfig'', On_whiteboardConfig),
      (''whiteboardInfoUpdate'', On_whiteboardInfoUpdate),
      (''drawToWhiteboard'', On_drawToWhiteboard),
      (''refreshUserBadges'', On_refreshUserBadges),
      (''wrongAccessToken'', On_wrongAccessToken k)]"

lemma join_message_frame [simp]:
  "join_message (c\<lparr>signaling_socket := s\<rparr>) = join_message c"
  "join_message (c\<lparr>accessDenied := a\<rparr>) = join_message c"
  by (simp_all add: join_message_def window_payload_def)

lemma on_connect_eq:
  "on_connect c =
     c\<lparr>signaling_socket :=
         \<lparr>listeners = listeners (signaling_socket c) @
                        connection_listeners (length (accessDenied c)),
          outbox = outbox (signaling_socket c) @ [(''joinWhiteboard'', join_message c)]\<rparr>,
       accessDenied := accessDenied c @ [False]\<rparr>"
  by (simp add: on_connect_def prim_defs socket_defs connection_listeners_def)

lemma on_whiteboardConfig_eq:
  "on_whiteboardConfig p c =
     c\<lparr>config := initFromServer p,
       ready_queue := Suc (ready_queue c),
       window_listeners := window_listeners c @ [''dragover'', ''drop'', ''paste'']\<rparr>"
  by (simp add: on_whiteboardConfig_def initWhiteboard_def prevent_tab_change_def
      listen_paste_def)

lemma on_whiteboardInfoUpdate_eq:
  "on_whiteboardInfoUpdate p c =
     c\<lparr>info := updateInfoFromServer p (info c),
       wb_calls := wb_calls c @ [UpdateSmallestScreenResolution]\<rparr>"
  by (simp add: on_whiteboardInfoUpdate_def prim_defs)

lemma on_drawToWhiteboard_eq:
  "on_drawToWhiteboard p c =
     c\<lparr>wb_calls := wb_calls c @ [HandleEventsAndData p True],
       info := incrementNbMessagesReceived (info c)\<rparr>"
  by (simp add: on_drawToWhiteboard_def prim_defs)

lemma on_refreshUserBadges_eq:
  "on_refreshUserBadges c = c\<lparr>wb_calls := wb_calls c @ [RefreshUserBadges]\<rparr>"
  by (simp add: on_refreshUserBadges_def prim_defs)

lemmas listener_eqs =
  on_connect_eq on_whiteboardConfig_eq on_whiteboardInfoUpdate_eq on_drawToWhiteboard_eq
  on_refreshUserBadges_eq

text \<open>No listener but the one for \<^verbatim>\<open>connect\<close> touches the socket's listeners.\<close>

lemma run_listener_listeners:
  "h \<noteq> On_connect \<Longrightarrow>
   listeners (signaling_socket (run_listener h p c)) = listeners (signaling_socket c)"
  by (cases h) (simp_all add: listener_eqs on_wrongAccessToken_def prim_defs)

lemma run_listener_outbox:
  "h \<noteq> On_connect \<Longrightarrow> signaling_socket (run_listener h p c) = signaling_socket c"
  by (cases h) (simp_all add: listener_eqs on_wrongAccessToken_def prim_defs)

lemma run_listener_ident [simp]:
  "ident (run_listener h p c) = ident c"
  "production (run_listener h p c) = production c"
  "window_size (run_listener h p c) = window_size c"
  by (cases h; simp add: listener_eqs on_wrongAccessToken_def prim_defs)+

section \<open>The listeners that are registered\<close>

text \<open>
  \<open>connections c\<close> is the number of times the \<^verbatim>\<open>connect\<close> listener has run: each run
  makes one variable \<open>accessDenied\<close>. After \<open>n\<close> runs the socket holds the listener for
  \<^verbatim>\<open>connect\<close> and \<open>n\<close> copies of the other five, the \<open>k\<close>-th copy of the listener for
  \<^verbatim>\<open>wrongAccessToken\<close> with variable \<open>k\<close>.
\<close>

definition connections :: "client \<Rightarrow> nat" where
  "connections c = length (accessDenied c)"

definition registered :: "nat \<Rightarrow> (string \<times> listener) list" where
  "registered n = (''connect'', On_connect) # concat (map connection_listeners [0..<n])"

definition registry_inv :: "client \<Rightarrow> bool" where
  "registry_inv c \<longleftrightarrow> listeners (signaling_socket c) = registered (connections c)"

lemma registered_0 [simp]: "registered 0 = [(''connect'', On_connect)]"
  by (simp add: registered_def)

lemma registered_Suc [simp]: "registered (Suc n) = registered n @ connection_listeners n"
  by (simp add: registered_def)

lemma listeners_of_registered:
  "map snd (filter (\<lambda>p. fst p = name) (registered n)) =
     (if name = ''connect'' then [On_connect]
      else if name = ''whiteboardConfig'' then replicate n On_whiteboardConfig
      else if name = ''whiteboardInfoUpdate'' then replicate n On_whiteboardInfoUpdate
      else if name = ''drawToWhiteboard'' then replicate n On_drawToWhiteboard
      else if name = ''refreshUserBadges'' then replicate n On_refreshUserBadges
      else if name = ''wrongAccessToken'' then map On_wrongAccessToken [0..<n]
      else [])"
  by (induction n) (auto simp: connection_listeners_def replicate_append_same)

lemma handlers_registered:
  assumes "registry_inv c"
  shows "handlers name c =
     (if name = ''connect'' then [On_connect]
      else if name = ''whiteboardConfig'' then replicate (connections c) On_whiteboardConfig
      else if name = ''whiteboardInfoUpdate''
        then replicate (connections c) On_whiteboardInfoUpdate
      else if name = ''drawToWhiteboard'' then replicate (connections c) On_drawToWhiteboard
      else if name = ''refreshUserBadges'' then replicate (connections c) On_refreshUserBadges
      else if name = ''wrongAccessToken'' then map On_wrongAccessToken [0..<connections c]
      else [])"
  using assms listeners_of_registered [of name "connections c"]
  by (simp add: handlers_def listeners_of_def registry_inv_def)

lemma handlers_not_connect:
  "registry_inv c \<Longrightarrow> name \<noteq> ''connect'' \<Longrightarrow> h \<in> set (handlers name c) \<Longrightarrow> h \<noteq> On_connect"
  by (auto simp: handlers_registered split: if_splits)

lemma run_listener_connections:
  "h \<noteq> On_connect \<Longrightarrow> connections (run_listener h p c) = connections c"
  by (cases h) (simp_all add: listener_eqs on_wrongAccessToken_def prim_defs connections_def)

lemma run_listener_registry:
  "h \<noteq> On_connect \<Longrightarrow> registry_inv c \<Longrightarrow> registry_inv (run_listener h p c)"
  by (simp add: registry_inv_def run_listener_listeners run_listener_connections)

lemma on_connect_registry: "registry_inv c \<Longrightarrow> registry_inv (on_connect c)"
  by (simp add: registry_inv_def on_connect_eq connections_def)

text \<open>
  What holds of the client before an event is delivered and is kept by every listener
  but the one for \<^verbatim>\<open>connect\<close> holds after a message of the relay is delivered.
\<close>

lemma deliver_preserves:
  assumes "registry_inv c" and "name \<noteq> ''connect''" and "P c"
    and "\<And>h c. h \<noteq> On_connect \<Longrightarrow> P c \<Longrightarrow> P (run_listener h p c)"
  shows "P (deliver name p c)"
proof -
  have "\<forall>h \<in> set (handlers name c). h \<noteq> On_connect"
    using assms(1,2) by (auto dest: handlers_not_connect)
  then have "P (seq (map (\<lambda>h. run_listener h p) hs) c')"
    if "set hs \<subseteq> set (handlers name c)" and "P c'" for hs c'
    using that by (induction hs arbitrary: c') (auto intro: assms(4))
  with assms(3) show ?thesis
    by (simp add: deliver_def)
qed

lemma deliver_connect: "registry_inv c \<Longrightarrow> deliver ''connect'' p c = on_connect c"
  by (simp add: deliver_def handlers_registered)

lemma deliver_registry:
  "registry_inv c \<Longrightarrow> name \<noteq> ''connect'' \<Longrightarrow> registry_inv (deliver name p c)"
  by (rule deliver_preserves) (auto intro: run_listener_registry)

lemma sendFunction_socket:
  "sendFunction content c = Inr c' \<Longrightarrow>
   listeners (signaling_socket c') = listeners (signaling_socket c) \<and>
   accessDenied c' = accessDenied c"
  by (auto simp: sendFunction_def prim_defs on_result_Inr_iff split: if_splits)

lemma whiteboard_ready_socket:
  "whiteboard_ready c = Inr c' \<Longrightarrow>
   signaling_socket c' = signaling_socket c \<and> accessDenied c' = accessDenied c"
  by (auto simp: whiteboard_ready_def load_whiteboard_def request_whiteboard_def
      register_resize_def select_mouse_def setup_read_only_def prim_defs on_result_Inr_iff)

lemma funpow_on_resize_socket [simp]:
  "listeners (signaling_socket ((on_resize ^^ n) c)) = listeners (signaling_socket c)"
  "accessDenied ((on_resize ^^ n) c) = accessDenied c"
  by (induction n) (simp_all add: on_resize_def prim_defs)

lemma step_registry: "registry_inv c \<Longrightarrow> registry_inv (step c e)"
proof (cases e)
  case Connect
  then show "registry_inv c \<Longrightarrow> ?thesis"
    by (simp add: deliver_connect on_connect_registry)
next
  case (Receive name p)
  then show "registry_inv c \<Longrightarrow> ?thesis"
    by (simp add: deliver_registry)
next
  case DocumentReady
  then show "registry_inv c \<Longrightarrow> ?thesis"
    by (auto simp: registry_inv_def connections_def uncaught_in_def Let_def throw_def
        split: sum.splits dest!: whiteboard_ready_socket)
next
  case (LocalDraw content)
  then show "registry_inv c \<Longrightarrow> ?thesis"
    by (auto simp: registry_inv_def connections_def uncaught_in_def throw_def
        split: sum.splits dest!: sendFunction_socket)
qed (simp_all add: registry_inv_def connections_def on_loaded_def prim_defs seq_replicate)

section \<open>The send function and the ready callback in closed form\<close>

lemma sendFunction_eq:
  "sendFunction content c =
     (if readOnlyActive c then Inr c
      else on_result
             (\<lambda>content'.
                c\<lparr>signaling_socket :=
                    sock_emit ''drawToWhiteboard'' content' (signaling_socket c),
                  info := incrementNbMessagesSent (info c)\<rparr>)
             (jset content ''at'' (JStr (accessToken (ident c)))))"
  by (simp add: sendFunction_def prim_defs)

lemma setup_read_only_eq:
  "setup_read_only c =
     c\<lparr>readOnlyActive := (isReadOnly (config c) \<or>
                            production c \<and> readOnlyOnWhiteboardLoad (config c)),
       info := (info c)\<lparr>infoAreDisplayed :=
                 (if production c then displayInfoOnWhiteboardLoad (config c) else True)\<rparr>\<rparr>"
  by (simp add: setup_read_only_def readonly_defs info_defs)

text \<open>The flag the read-only service held before the callback ran is not read.\<close>

lemma setup_read_only_flag [simp]:
  "setup_read_only (c\<lparr>readOnlyActive := b\<rparr>) = setup_read_only c"
  by (simp add: setup_read_only_eq)

lemma whiteboard_ready_eq:
  "whiteboard_ready c =
     on_result
       (\<lambda>username.
          c\<lparr>wb_calls := wb_calls c @
                [LoadWhiteboard (whiteboardId (ident c)) username
                   (lit ''./images/'' @ backgroundGridImage (config c)),
                 SetTool_mouse, RefreshCursorAppearance],
            sendFunction_set := True,
            requests := requests c @
                [(subdir (ident c) @ lit ''/api/loadwhiteboard'',
                  JObj [(''wid'', JStr (whiteboardId (ident c))),
                        (''at'', JStr (accessToken (ident c)))])],
            awaiting := Suc (awaiting c),
            resize_handlers := Suc (resize_handlers c),
            readOnlyActive := (isReadOnly (config c) \<or>
                                 production c \<and> readOnlyOnWhiteboardLoad (config c)),
            info := (info c)\<lparr>infoAreDisplayed :=
                      (if production c then displayInfoOnWhiteboardLoad (config c)
                       else True)\<rparr>\<rparr>)
       (btoa (myUsername (ident c)))"
  by (cases "btoa (myUsername (ident c))")
    (simp_all add: whiteboard_ready_def load_whiteboard_def request_whiteboard_def
      register_resize_def select_mouse_def setup_read_only_eq prim_defs)

lemma funpow_on_resize:
  "(on_resize ^^ n) c =
     c\<lparr>signaling_socket := (signaling_socket c)
         \<lparr>outbox := outbox (signaling_socket c) @
            replicate n (''updateScreenResolution'',
              JObj [(''at'', JStr (accessToken (ident c))),
                    (''windowWidthHeight'', window_payload c)])\<rparr>\<rparr>"
proof (induction n)
  case 0
  show ?case by simp
next
  case (Suc n)
  then show ?case
    by (simp add: on_resize_def prim_defs socket_defs window_payload_def
        replicate_append_same)
qed

section \<open>Every step in closed form\<close>

lemma step_DocumentReady_eq:
  "step c DocumentReady =
     (if ready_queue c = 0 then c
      else case btoa (myUsername (ident c)) of
        Inl e \<Rightarrow> c\<lparr>ready_queue := ready_queue c - 1, uncaught := uncaught c @ [e]\<rparr>
      | Inr username \<Rightarrow>
          c\<lparr>ready_queue := ready_queue c - 1,
            wb_calls := wb_calls c @
                [LoadWhiteboard (whiteboardId (ident c)) username
                   (lit ''./images/'' @ backgroundGridImage (config c)),
                 SetTool_mouse, RefreshCursorAppearance],
            sendFunction_set := True,
            requests := requests c @
                [(subdir (ident c) @ lit ''/api/loadwhiteboard'',
                  JObj [(''wid'', JStr (whiteboardId (ident c))),
                        (''at'', JStr (accessToken (ident c)))])],
            awaiting := Suc (awaiting c),
            resize_handlers := Suc (resize_handlers c),
            readOnlyActive := (isReadOnly (config c) \<or>
                                 production c \<and> readOnlyOnWhiteboardLoad (config c)),
            info := (info c)\<lparr>infoAreDisplayed :=
                      (if production c then displayInfoOnWhiteboardLoad (config c)
                       else True)\<rparr>\<rparr>)"
  by (simp add: whiteboard_ready_eq uncaught_in_def throw_def Let_def split: sum.splits)

lemma step_LocalDraw_eq:
  "step c (LocalDraw content) =
     (if sendFunction_set c \<and> \<not> readOnlyActive c
      then case jset content ''at'' (JStr (accessToken (ident c))) of
          Inl e \<Rightarrow> c\<lparr>uncaught := uncaught c @ [e]\<rparr>
        | Inr content' \<Rightarrow>
            c\<lparr>signaling_socket :=
                sock_emit ''drawToWhiteboard'' content' (signaling_socket c),
              info := incrementNbMessagesSent (info c)\<rparr>
      else c)"
  by (simp add: sendFunction_eq uncaught_in_def throw_def split: sum.splits)

lemma step_WindowResize_eq:
  "step c (WindowResize w h) =
     c\<lparr>window_size := (w, h),
       signaling_socket := (signaling_socket c)
         \<lparr>outbox := outbox (signaling_socket c) @
            replicate (resize_handlers c) (''updateScreenResolution'',
              JObj [(''at'', JStr (accessToken (ident c))),
                    (''windowWidthHeight'', JObj [(''w'', JNum w), (''h'', JNum h)])])\<rparr>\<rparr>"
  by (simp add: seq_replicate funpow_on_resize window_payload_def)

lemma step_LoadResponse_eq:
  "step c (LoadResponse data) =
     (if awaiting c = 0 then c
      else c\<lparr>awaiting := awaiting c - 1, wb_calls := wb_calls c @ [LoadData data]\<rparr>)"
  by (simp add: on_loaded_def prim_defs)

lemmas step_eqs =
  step_DocumentReady_eq step_LocalDraw_eq step_WindowResize_eq step_LoadResponse_eq

declare step.simps(3,4,5,6) [simp del]

section \<open>A client to evaluate on\<close>

definition demo_identity :: identity where
  "demo_identity =
     \<lparr>whiteboardId = lit ''MyBoard'', myUsername = lit ''ann'', accessToken = lit ''s3cret'',
      subdir = []\<rparr>"

definition demo_client :: client where
  "demo_client = client_init demo_identity True (800, 600)"

definition stroke :: jsval where
  "stroke = JObj [(''t'', JStr (lit ''stroke'')), (''d'', JNum 7)]"

lemmas demo_defs = demo_client_def demo_identity_def client_init_def stroke_def

section \<open>The send function\<close>

text \<open>
  C1: In read-only mode the send function returns without emitting anything and without
  counting a message: the client is the same after the call, and after the drawing
  surface hands a local mutation to the client.
\<close>

theorem sendFunction_read_only:
  assumes "readOnlyActive c"
  shows "sendFunction content c = Inr c \<and> step c (LocalDraw content) = c"
  using assms by (simp add: sendFunction_def step.simps uncaught_in_def)

theorem sendFunction_read_only_witness:
  "readOnlyActive (demo_client\<lparr>readOnlyActive := True, sendFunction_set := True\<rparr>) \<and>
   step (demo_client\<lparr>readOnlyActive := True, sendFunction_set := True\<rparr>) (LocalDraw stroke) =
     demo_client\<lparr>readOnlyActive := True, sendFunction_set := True\<rparr>"
  using sendFunction_read_only
    [of "demo_client\<lparr>readOnlyActive := True, sendFunction_set := True\<rparr>" stroke]
  by simp

text \<open>
  C9: Outside read-only mode the send function stamps the access token on the payload
  as property \<open>at\<close> (replacing an \<open>at\<close> the payload had, keeping every other property),
  emits the payload once as \<^verbatim>\<open>drawToWhiteboard\<close> and counts one message sent; nothing else
  of the client changes.
\<close>

theorem sendFunction_emits:
  assumes "\<not> readOnlyActive c"
  shows "sendFunction (JObj kvs) c =
     Inr (c\<lparr>signaling_socket :=
               sock_emit ''drawToWhiteboard''
                 (JObj (AList.update ''at'' (JStr (accessToken (ident c))) kvs))
                 (signaling_socket c),
             info := (info c)\<lparr>nbMessagesSent := nbMessagesSent (info c) + 1\<rparr>\<rparr>)"
  using assms by (simp add: sendFunction_def prim_defs info_defs)

theorem sendFunction_emits_witness:
  "\<not> readOnlyActive demo_client \<and>
   sendFunction stroke demo_client =
     Inr (demo_client
       \<lparr>signaling_socket :=
          \<lparr>listeners = [],
           outbox = [(''drawToWhiteboard'',
             JObj [(''t'', JStr (lit ''stroke'')), (''d'', JNum 7),
                   (''at'', JStr (lit ''s3cret''))])]\<rparr>,
        info := info_empty\<lparr>nbMessagesSent := 1\<rparr>\<rparr>)"
  using sendFunction_emits
    [of demo_client "[(''t'', JStr (lit ''stroke'')), (''d'', JNum 7)]"]
  by (simp add: demo_defs socket_defs info_empty_def)

text \<open>
  C24: A payload that is not an object makes the send function throw \<open>TypeError\<close> at the
  assignment of the access token, before anything is emitted or counted; the exception
  leaves the callback and the client is otherwise unchanged.
\<close>

theorem sendFunction_throws:
  assumes "\<not> readOnlyActive c" and "\<not> is_object content" and "sendFunction_set c"
  shows "sendFunction content c = Inl TypeError \<and>
     step c (LocalDraw content) = c\<lparr>uncaught := uncaught c @ [TypeError]\<rparr>"
  using assms by (cases content) (simp_all add: sendFunction_eq step_LocalDraw_eq)

theorem sendFunction_throws_witness:
  "\<not> is_object JNull \<and>
   step (demo_client\<lparr>sendFunction_set := True\<rparr>) (LocalDraw JNull) =
     demo_client\<lparr>sendFunction_set := True, uncaught := [TypeError]\<rparr>"
  using sendFunction_throws [of "demo_client\<lparr>sendFunction_set := True\<rparr>" JNull]
  by (simp add: demo_defs)

section \<open>The ready callback\<close>

text \<open>
  C7: When the ready callback has run, read-only mode is active exactly if the
  configuration says the whiteboard is read-only, or the build is a production build and
  the configuration asks for read-only mode at load; the information display is on in a
  development build and follows the configuration in a production build. The state of
  the two services before the callback does not matter.
\<close>

theorem whiteboard_ready_mode:
  assumes "whiteboard_ready c = Inr c'"
  shows "readOnlyActive c' =
       (isReadOnly (config c) \<or> production c \<and> readOnlyOnWhiteboardLoad (config c)) \<and>
     infoAreDisplayed (info c') =
       (if production c then displayInfoOnWhiteboardLoad (config c) else True)"
  using assms by (auto simp: whiteboard_ready_eq on_result_Inr_iff)

theorem whiteboard_ready_mode_witness:
  "(\<exists>c'. whiteboard_ready (demo_client\<lparr>config := initFromServer (JObj [(''isReadOnly'', JBool True)])\<rparr>) = Inr c' \<and>
     readOnlyActive c' \<and> \<not> infoAreDisplayed (info c'))"
proof -
  let ?c = "demo_client\<lparr>config := initFromServer (JObj [(''isReadOnly'', JBool True)])\<rparr>"
  obtain c' where r: "whiteboard_ready ?c = Inr c'"
    by (auto simp: whiteboard_ready_eq demo_defs on_result_Inr_iff btoa_Inr_iff)
  from whiteboard_ready_mode [OF r] have "readOnlyActive c' \<and> \<not> infoAreDisplayed (info c')"
    by (simp add: demo_defs initFromServer_def)
  with r show ?thesis by blast
qed

text \<open>
  C22: The ready callback throws exactly when the participant name has a code unit above
  255, where \<open>btoa\<close> throws \<open>InvalidCharacterError\<close>. Then the drawing surface is not
  loaded, no send function is set, the whiteboard's content is not requested and the
  read-only mode is not set: the step only takes the callback off the queue and reports
  the exception.
\<close>

theorem whiteboard_ready_throws:
  assumes "\<not> list_all (\<lambda>u. u < 256) (myUsername (ident c))" and "0 < ready_queue c"
  shows "whiteboard_ready c = Inl InvalidCharacterError \<and>
     step c DocumentReady =
       c\<lparr>ready_queue := ready_queue c - 1, uncaught := uncaught c @ [InvalidCharacterError]\<rparr>"
proof -
  from assms(1) have "btoa (myUsername (ident c)) = Inl InvalidCharacterError"
    by (simp add: btoa_Inl_iff)
  with assms(2) show ?thesis
    by (simp add: whiteboard_ready_eq step_DocumentReady_eq)
qed

theorem whiteboard_ready_throws_witness:
  "step (demo_client\<lparr>ident := demo_identity\<lparr>myUsername := [1040, 1085, 1085, 1072]\<rparr>,
                     ready_queue := 1\<rparr>) DocumentReady =
     demo_client\<lparr>ident := demo_identity\<lparr>myUsername := [1040, 1085, 1085, 1072]\<rparr>,
                 ready_queue := 0, uncaught := [InvalidCharacterError]\<rparr>"
  using whiteboard_ready_throws
    [of "demo_client\<lparr>ident := demo_identity\<lparr>myUsername := [1040, 1085, 1085, 1072]\<rparr>,
                      ready_queue := 1\<rparr>"]
  by (simp add: demo_defs)

text \<open>
  C23: With a participant name of code units up to 255 the ready callback does not throw.
\<close>

theorem whiteboard_ready_returns:
  assumes "list_all (\<lambda>u. u < 256) (myUsername (ident c))"
  shows "\<exists>c'. whiteboard_ready c = Inr c' \<and> sendFunction_set c' \<and>
     awaiting c' = Suc (awaiting c) \<and> uncaught c' = uncaught c"
  using assms by (simp add: whiteboard_ready_eq btoa_def)

theorem whiteboard_ready_returns_witness:
  "\<exists>c'. whiteboard_ready demo_client = Inr c' \<and> sendFunction_set c' \<and>
     awaiting c' = Suc (awaiting demo_client) \<and> uncaught c' = uncaught demo_client"
  using whiteboard_ready_returns [of demo_client]
  by (simp add: demo_defs lit_def)

section \<open>The resize handler\<close>

text \<open>
  C26: A resize of the window emits \<^verbatim>\<open>updateScreenResolution\<close> with the access token and
  the new size once for every resize handler that was registered, one per run of the
  ready callback, whether read-only mode is active or not.
\<close>

theorem resize_reports:
  "emitted ''updateScreenResolution'' (step c (WindowResize w h)) =
     emitted ''updateScreenResolution'' c @
     replicate (resize_handlers c)
       (JObj [(''at'', JStr (accessToken (ident c))),
              (''windowWidthHeight'', JObj [(''w'', JNum w), (''h'', JNum h)])])"
  by (simp add: step_WindowResize_eq emitted_def sent_def)

end
