(* ===== verification/Sync_Session.thy ===== *)
theory Sync_Session
  imports Sync_Engine
begin

text \<open>
  Executions of the client: the clients that can be reached from the start by events,
  what holds of all of them, and what the relay and the drawing surface observe. The
  lemmas show that every emitted drawing message carries the access token and is
  counted, that received messages are applied in the order of arrival, once per
  connection the transport has made, that the notice of a denied access is shown once per
  connection, and how the client behaves across a reconnection.
\<close>

section \<open>Reachable clients\<close>

inductive reachable :: "client \<Rightarrow> bool" where
  reachable_start: "reachable (start i is_production wh)"
| reachable_step: "reachable c \<Longrightarrow> reachable (step c e)"

lemma reachable_run: "reachable c \<Longrightarrow> reachable (run c es)"
  by (induction es arbitrary: c) (auto intro: reachable_step)

lemma reachable_run_start [simp]: "reachable (run (start i is_production wh) es)"
  by (rule reachable_run) (rule reachable_start)

lemma start_registry [simp]: "registry_inv (start i is_production wh)"
  by (simp add: registry_inv_def start_def main_def client_init_def connections_def socket_defs)

lemma reachable_registry: "reachable c \<Longrightarrow> registry_inv c"
  by (induction rule: reachable.induct) (simp_all add: step_registry)

lemma run_registry: "registry_inv c \<Longrightarrow> registry_inv (run c es)"
  by (induction es arbitrary: c) (simp_all add: step_registry)

section \<open>What is observed of a client\<close>

text \<open>
  The payloads the drawing surface was asked to apply, in order; the notice of a denied
  access and how often it was put on the screen.
\<close>

fun applied_payload :: "wb_call \<Rightarrow> jsval option" where
  "applied_payload (HandleEventsAndData p b) = Some p"
| "applied_payload _ = None"

definition applied :: "client \<Rightarrow> jsval list" where
  "applied c = List.map_filter applied_payload (wb_calls c)"

definition denial :: alert_html where
  "denial = Html (lit ''Access denied! Wrong accessToken!'')"

definition denials :: "client \<Rightarrow> nat" where
  "denials c = length (filter (\<lambda>h. h = denial) (shown (dom c)))"

lemma map_filter_append [simp]:
  "List.map_filter f (xs @ ys) = List.map_filter f xs @ List.map_filter f ys"
  by (simp add: List.map_filter_def)

lemma map_filter_replicate_Some:
  "f x = Some y \<Longrightarrow> List.map_filter f (replicate n x) = replicate n y"
  by (induction n) (simp_all add: List.map_filter_simps)

lemma map_filter_replicate_None:
  "f x = None \<Longrightarrow> List.map_filter f (replicate n x) = []"
  by (induction n) (simp_all add: List.map_filter_simps)

section \<open>Delivery of the relay's messages\<close>

lemma funpow_on_drawToWhiteboard:
  "(on_drawToWhiteboard p ^^ n) c =
     c\<lparr>wb_calls := wb_calls c @ replicate n (HandleEventsAndData p True),
       info := (incrementNbMessagesReceived ^^ n) (info c)\<rparr>"
proof (induction n)
  case 0
  show ?case by simp
next
  case (Suc n)
  then show ?case
    by (simp add: on_drawToWhiteboard_eq replicate_append_same)
qed

lemma deliver_drawToWhiteboard:
  assumes "registry_inv c"
  shows "deliver ''drawToWhiteboard'' p c =
     c\<lparr>wb_calls := wb_calls c @ replicate (connections c) (HandleEventsAndData p True),
       info := (incrementNbMessagesReceived ^^ connections c) (info c)\<rparr>"
proof -
  have "deliver ''drawToWhiteboard'' p c =
      seq (replicate (connections c) (on_drawToWhiteboard p)) c"
    using assms by (simp add: deliver_def handlers_registered)
  then show ?thesis
    by (simp add: seq_replicate funpow_on_drawToWhiteboard)
qed

text \<open>
  The listeners for \<^verbatim>\<open>wrongAccessToken\<close>, run in order of registration: each sets its own
  variable and shows the notice if the variable was not set.
\<close>

lemma on_wrongAccessToken_eq:
  "on_wrongAccessToken k c =
     (if k < length (accessDenied c) \<and> \<not> accessDenied c ! k
      then c\<lparr>accessDenied := (accessDenied c)[k := True],
             dom := showBasicAlert denial [] (dom c)\<rparr>
      else c)"
  by (simp add: on_wrongAccessToken_def basic_alert_def denial_def)

lemma wrong_prefix:
  assumes "m \<le> length (accessDenied c)"
  shows "seq (map on_wrongAccessToken [0..<m]) c =
     c\<lparr>accessDenied := replicate m True @ drop m (accessDenied c),
       dom := ((showBasicAlert denial []) ^^ length (filter Not (take m (accessDenied c))))
                (dom c)\<rparr>"
  using assms
proof (induction m)
  case 0
  show ?case by simp
next
  case (Suc m)
  let ?a = "accessDenied c"
  from Suc.prems have m: "m < length ?a" by simp
  note flags = set_flags_step [OF m]
  have take: "take (Suc m) ?a = take m ?a @ [?a ! m]"
    using m by (simp add: take_Suc_conv_app_nth)
  from Suc m have IH: "seq (map on_wrongAccessToken [0..<m]) c =
     c\<lparr>accessDenied := replicate m True @ drop m ?a,
       dom := ((showBasicAlert denial []) ^^ length (filter Not (take m ?a))) (dom c)\<rparr>"
    by simp
  let ?c = "c\<lparr>accessDenied := replicate m True @ drop m ?a,
       dom := ((showBasicAlert denial []) ^^ length (filter Not (take m ?a))) (dom c)\<rparr>"
  have "seq (map on_wrongAccessToken [0..<Suc m]) c =
      on_wrongAccessToken m (seq (map on_wrongAccessToken [0..<m]) c)"
    by simp
  also have "\<dots> = on_wrongAccessToken m ?c"
    by (simp only: IH)
  also have "\<dots> = c\<lparr>accessDenied := replicate (Suc m) True @ drop (Suc m) ?a,
       dom := ((showBasicAlert denial []) ^^ length (filter Not (take (Suc m) ?a))) (dom c)\<rparr>"
  proof (cases "?a ! m")
    case True
    with m flags(2) flags(3) [OF True] show ?thesis
      by (simp add: on_wrongAccessToken_eq take)
  next
    case False
    with m flags(1,2) show ?thesis
      by (simp add: on_wrongAccessToken_eq take del: replicate_Suc)
  qed
  finally show ?case .
qed

lemma deliver_wrongAccessToken:
  assumes "registry_inv c"
  shows "deliver ''wrongAccessToken'' p c =
     c\<lparr>accessDenied := replicate (connections c) True,
       dom := ((showBasicAlert denial []) ^^ length (filter Not (accessDenied c))) (dom c)\<rparr>"
proof -
  have "deliver ''wrongAccessToken'' p c =
      seq (map on_wrongAccessToken [0..<connections c]) c"
    using assms by (simp add: deliver_def handlers_registered comp_def)
  then show ?thesis
    by (simp add: wrong_prefix connections_def)
qed

lemma shown_funpow_show [simp]:
  "shown (((showBasicAlert html os) ^^ n) d) = shown d @ replicate n html"
  by (induction n) (simp_all add: replicate_append_same)

section \<open>What no step changes\<close>

lemma deliver_inv:
  assumes "P c" and "\<And>h c. P c \<Longrightarrow> P (run_listener h p c)"
  shows "P (deliver name p c)"
  unfolding deliver_def using assms(1)
  by (rule seq_preserves [rotated]) (auto intro: assms(2))

lemma deliver_ident [simp]:
  "ident (deliver name p c) = ident c"
  "production (deliver name p c) = production c"
  by (rule deliver_inv [where P = "\<lambda>c'. ident c' = ident c"], simp, simp,
      rule deliver_inv [where P = "\<lambda>c'. production c' = production c"], simp, simp)

lemma step_ident [simp]:
  "ident (step c e) = ident c"
  "production (step c e) = production c"
  by (cases e; simp add: step_eqs split: sum.splits)+

lemma run_ident [simp]:
  "ident (run c es) = ident c"
  "production (run c es) = production c"
  by (induction es arbitrary: c) simp_all

lemma start_ident [simp]:
  "ident (start i is_production wh) = i"
  "production (start i is_production wh) = is_production"
  by (simp_all add: start_def main_def client_init_def)

section \<open>Messages sent\<close>

text \<open>
  \<open>drawn c\<close> are the drawing messages the client has handed to the transport. A message
  is \<open>stamped\<close> when it carries the client's access token.
\<close>

definition drawn :: "client \<Rightarrow> jsval list" where
  "drawn c = emitted ''drawToWhiteboard'' c"

definition stamped :: "jsstring \<Rightarrow> jsval \<Rightarrow> bool" where
  "stamped token p \<longleftrightarrow> jget p ''at'' = JStr token"

definition sent_inv :: "client \<Rightarrow> bool" where
  "sent_inv c \<longleftrightarrow>
     list_all (stamped (accessToken (ident c))) (drawn c) \<and>
     nbMessagesSent (info c) = length (drawn c)"

lemma run_listener_sent:
  "drawn (run_listener h p c) = drawn c"
  "nbMessagesSent (info (run_listener h p c)) = nbMessagesSent (info c)"
  by (cases h; simp add: listener_eqs on_wrongAccessToken_eq drawn_def emitted_def sent_def)+

lemma run_listener_sent_inv: "sent_inv c \<Longrightarrow> sent_inv (run_listener h p c)"
  by (simp add: sent_inv_def run_listener_sent)

lemma step_sent_inv: "sent_inv c \<Longrightarrow> sent_inv (step c e)"
proof (cases e)
  case Connect
  then show "sent_inv c \<Longrightarrow> ?thesis"
    by (auto intro: deliver_inv run_listener_sent_inv)
next
  case (Receive name p)
  then show "sent_inv c \<Longrightarrow> ?thesis"
    by (auto intro: deliver_inv run_listener_sent_inv)
next
  case (LocalDraw content)
  then show "sent_inv c \<Longrightarrow> ?thesis"
    by (cases content)
      (simp_all add: step_eqs sent_inv_def drawn_def emitted_def stamped_def update_conv')
qed (simp_all add: step_eqs sent_inv_def drawn_def emitted_def sent_def split: sum.splits)

lemma start_sent_inv [simp]: "sent_inv (start i is_production wh)"
  by (simp add: sent_inv_def drawn_def emitted_def start_def main_def client_init_def
      info_empty_def)

lemma reachable_sent_inv: "reachable c \<Longrightarrow> sent_inv c"
  by (induction rule: reachable.induct) (simp_all add: step_sent_inv)

section \<open>Messages received\<close>

definition received_inv :: "client \<Rightarrow> bool" where
  "received_inv c \<longleftrightarrow> nbMessagesReceived (info c) = length (applied c)"

lemma run_listener_received_inv: "received_inv c \<Longrightarrow> received_inv (run_listener h p c)"
  by (cases h)
    (simp_all add: received_inv_def applied_def listener_eqs on_wrongAccessToken_eq)

lemma step_received_inv: "received_inv c \<Longrightarrow> received_inv (step c e)"
proof (cases e)
  case Connect
  then show "received_inv c \<Longrightarrow> ?thesis"
    by (auto intro: deliver_inv run_listener_received_inv)
next
  case (Receive name p)
  then show "received_inv c \<Longrightarrow> ?thesis"
    by (auto intro: deliver_inv run_listener_received_inv)
qed (simp_all add: step_eqs received_inv_def applied_def prim_defs split: sum.splits)

lemma start_received_inv [simp]: "received_inv (start i is_production wh)"
  by (simp add: received_inv_def applied_def start_def main_def client_init_def
      info_empty_def)

lemma reachable_received_inv: "reachable c \<Longrightarrow> received_inv c"
  by (induction rule: reachable.induct) (simp_all add: step_received_inv)

section \<open>Connections and notices\<close>

definition join_inv :: "client \<Rightarrow> bool" where
  "join_inv c \<longleftrightarrow>
     map (\<lambda>p. (jget p ''wid'', jget p ''at'')) (emitted ''joinWhiteboard'' c) =
       replicate (connections c)
         (JStr (whiteboardId (ident c)), JStr (accessToken (ident c)))"

definition denial_inv :: "client \<Rightarrow> bool" where
  "denial_inv c \<longleftrightarrow> denials c = length (filter (\<lambda>b. b) (accessDenied c))"

lemma run_listener_join_inv: "join_inv c \<Longrightarrow> join_inv (run_listener h p c)"
  by (cases h)
    (simp_all add: join_inv_def listener_eqs on_wrongAccessToken_eq emitted_def sent_def
      connections_def join_message_def replicate_append_same)

lemma run_listener_denial_inv: "denial_inv c \<Longrightarrow> denial_inv (run_listener h p c)"
  by (cases h)
    (simp_all add: denial_inv_def denials_def listener_eqs on_wrongAccessToken_eq
      count_flags_update)

lemma step_join_inv: "join_inv c \<Longrightarrow> join_inv (step c e)"
proof (cases e)
  case Connect
  then show "join_inv c \<Longrightarrow> ?thesis"
    by (auto intro: deliver_inv run_listener_join_inv)
next
  case (Receive name p)
  then show "join_inv c \<Longrightarrow> ?thesis"
    by (auto intro: deliver_inv run_listener_join_inv)
qed (simp_all add: step_eqs join_inv_def emitted_def sent_def connections_def
    split: sum.splits)

lemma step_denial_inv: "denial_inv c \<Longrightarrow> denial_inv (step c e)"
proof (cases e)
  case Connect
  then show "denial_inv c \<Longrightarrow> ?thesis"
    by (auto intro: deliver_inv run_listener_denial_inv)
next
  case (Receive name p)
  then show "denial_inv c \<Longrightarrow> ?thesis"
    by (auto intro: deliver_inv run_listener_denial_inv)
qed (simp_all add: step_eqs denial_inv_def denials_def split: sum.splits)

lemma start_join_inv [simp]: "join_inv (start i is_production wh)"
  by (simp add: join_inv_def emitted_def start_def main_def client_init_def connections_def)

lemma start_denial_inv [simp]: "denial_inv (start i is_production wh)"
  by (simp add: denial_inv_def denials_def start_def main_def client_init_def no_alerts_def)

lemma reachable_join_inv: "reachable c \<Longrightarrow> join_inv c"
  by (induction rule: reachable.induct) (simp_all add: step_join_inv)

lemma reachable_denial_inv: "reachable c \<Longrightarrow> denial_inv c"
  by (induction rule: reachable.induct) (simp_all add: step_denial_inv)

section \<open>Sequences of messages\<close>

lemma step_connections:
  assumes "registry_inv c"
  shows "connections (step c Connect) = Suc (connections c)"
    and "connections (step c (Receive ''drawToWhiteboard'' p)) = connections c"
    and "connections (step c (Receive ''wrongAccessToken'' p)) = connections c"
  using assms
  by (simp_all add: deliver_connect on_connect_eq deliver_drawToWhiteboard
      deliver_wrongAccessToken connections_def)

lemma connections_start [simp]: "connections (start i is_production wh) = 0"
  by (simp add: connections_def start_def main_def client_init_def)

lemma applied_draw:
  "registry_inv c \<Longrightarrow>
   applied (step c (Receive ''drawToWhiteboard'' p)) = applied c @ replicate (connections c) p"
  by (simp add: deliver_drawToWhiteboard applied_def map_filter_replicate_Some)

lemma applied_draws:
  "registry_inv c \<Longrightarrow>
   applied (run c (map (Receive ''drawToWhiteboard'') ps)) =
     applied c @ concat (map (replicate (connections c)) ps)"
proof (induction ps arbitrary: c)
  case Nil
  show ?case by simp
next
  case (Cons p ps)
  let ?c = "step c (Receive ''drawToWhiteboard'' p)"
  from Cons.prems have "registry_inv ?c"
    by (rule step_registry)
  from Cons.IH [OF this] Cons.prems show ?case
    by (simp add: applied_draw step_connections(2) del: step.simps)
qed

lemma denied_all:
  "registry_inv c \<Longrightarrow>
   accessDenied (step c (Receive ''wrongAccessToken'' p)) = replicate (connections c) True"
  by (simp add: deliver_wrongAccessToken)

lemma funpow_on_whiteboardConfig:
  "(on_whiteboardConfig p ^^ Suc n) c =
     c\<lparr>config := initFromServer p,
       ready_queue := ready_queue c + Suc n,
       window_listeners := window_listeners c @
         concat (replicate (Suc n) [''dragover'', ''drop'', ''paste''])\<rparr>"
proof (induction n arbitrary: c)
  case 0
  show ?case by (simp add: on_whiteboardConfig_eq)
next
  case (Suc n)
  let ?c = "on_whiteboardConfig p c"
  have "(on_whiteboardConfig p ^^ Suc (Suc n)) c = (on_whiteboardConfig p ^^ Suc n) ?c"
    by (simp only: funpow_Suc_right comp_apply)
  also have "\<dots> = ?c\<lparr>config := initFromServer p,
       ready_queue := ready_queue ?c + Suc n,
       window_listeners := window_listeners ?c @
         concat (replicate (Suc n) [''dragover'', ''drop'', ''paste''])\<rparr>"
    by (rule Suc.IH)
  also have "\<dots> = c\<lparr>config := initFromServer p,
       ready_queue := ready_queue c + Suc (Suc n),
       window_listeners := window_listeners c @
         concat (replicate (Suc (Suc n)) [''dragover'', ''drop'', ''paste''])\<rparr>"
    by (simp add: on_whiteboardConfig_eq)
  finally show ?case .
qed

lemma step_config:
  assumes "registry_inv c" and "0 < connections c"
  shows "step c (Receive ''whiteboardConfig'' p) =
     c\<lparr>config := initFromServer p,
       ready_queue := ready_queue c + connections c,
       window_listeners := window_listeners c @
         concat (replicate (connections c) [''dragover'', ''drop'', ''paste''])\<rparr>"
proof -
  from assms(2) obtain n where n: "connections c = Suc n"
    by (cases "connections c") auto
  from assms(1) have "step c (Receive ''whiteboardConfig'' p) =
      (on_whiteboardConfig p ^^ connections c) c"
    by (simp add: deliver_def handlers_registered seq_replicate)
  then show ?thesis
    by (simp only: n funpow_on_whiteboardConfig)
qed

section \<open>Read-only mode and exceptions across steps\<close>

lemma run_listener_mode [simp]:
  "readOnlyActive (run_listener h p c) = readOnlyActive c"
  "uncaught (run_listener h p c) = uncaught c"
  "sendFunction_set (run_listener h p c) = sendFunction_set c"
  by (cases h; simp add: listener_eqs on_wrongAccessToken_eq)+

lemma deliver_mode [simp]:
  "readOnlyActive (deliver name p c) = readOnlyActive c"
  "uncaught (deliver name p c) = uncaught c"
  "drawn (deliver name p c) = drawn c"
  "nbMessagesSent (info (deliver name p c)) = nbMessagesSent (info c)"
  by (rule deliver_inv [where P = "\<lambda>c'. readOnlyActive c' = readOnlyActive c"], simp, simp,
      rule deliver_inv [where P = "\<lambda>c'. uncaught c' = uncaught c"], simp, simp,
      rule deliver_inv [where P = "\<lambda>c'. drawn c' = drawn c"], simp,
      simp add: run_listener_sent,
      rule deliver_inv
        [where P = "\<lambda>c'. nbMessagesSent (info c') = nbMessagesSent (info c)"], simp,
      simp add: run_listener_sent)

text \<open>Only the ready callback sets or clears read-only mode.\<close>

lemma step_mode:
  "e \<noteq> DocumentReady \<Longrightarrow> readOnlyActive (step c e) = readOnlyActive c"
  by (cases e) (simp_all add: step_eqs split: sum.splits)

lemma step_silent:
  "readOnlyActive c \<Longrightarrow>
   drawn (step c e) = drawn c \<and> nbMessagesSent (info (step c e)) = nbMessagesSent (info c)"
proof (cases e)
  case Connect
  then show "readOnlyActive c \<Longrightarrow> ?thesis" by simp
next
  case (Receive name p)
  then show "readOnlyActive c \<Longrightarrow> ?thesis" by simp
qed (simp_all add: step_eqs drawn_def emitted_def sent_def split: sum.splits)

lemma run_silent:
  assumes "readOnlyActive c" and "list_all (\<lambda>e. e \<noteq> DocumentReady) es"
  shows "readOnlyActive (run c es) \<and> drawn (run c es) = drawn c \<and>
     nbMessagesSent (info (run c es)) = nbMessagesSent (info c)"
  using assms
proof (induction es arbitrary: c)
  case Nil
  then show ?case by simp
next
  case (Cons e es)
  from Cons.prems have "readOnlyActive (step c e)"
    by (simp add: step_mode)
  from Cons.IH [OF this] Cons.prems step_silent [of c e] show ?case
    by simp
qed

text \<open>An event that cannot make a callback throw.\<close>

fun harmless :: "event \<Rightarrow> bool" where
  "harmless (LocalDraw content) = is_object content"
| "harmless _ = True"

lemma step_uncaught:
  assumes "list_all (\<lambda>u. u < 256) (myUsername (ident c))" and "harmless e"
  shows "uncaught (step c e) = uncaught c"
proof (cases e)
  case DocumentReady
  with assms(1) show ?thesis
    by (simp add: step_eqs btoa_def)
next
  case (LocalDraw content)
  with assms(2) show ?thesis
    by (cases content) (simp_all add: step_eqs)
qed (simp_all add: step_eqs)

section \<open>The notice dialogs\<close>




section \<open>Sessions to evaluate on\<close>

definition demo_start :: client where
  "demo_start = start demo_identity True (800, 600)"

definition demo_config :: jsval where
  "demo_config = JObj [(''backgroundGridImage'', JStr (lit ''bg_grid.png''))]"

text \<open>Connected, configured, the drawing surface loaded, the snapshot requested.\<close>

definition demo_loading :: client where
  "demo_loading = run demo_start [Connect, Receive ''whiteboardConfig'' demo_config, DocumentReady]"

lemma reachable_demo [simp]: "reachable demo_start" "reachable demo_loading"
  unfolding demo_loading_def demo_start_def
  by (rule reachable_start, rule reachable_run_start)

lemma demo_ident [simp]: "ident demo_start = demo_identity" "ident demo_loading = demo_identity"
  by (simp_all add: demo_loading_def demo_start_def)

lemmas session_eval =
  demo_start_def demo_loading_def demo_config_def demo_defs start_def main_def handler_defs
  prim_defs socket_defs handlers_def emitted_def step_eqs info_defs readonly_defs
  initFromServer_def config_empty_def info_empty_def no_alerts_def window_payload_def
  join_message_def showBasicAlert_def Let_def

section \<open>The start of a session in closed form\<close>

text \<open>
  The client after the first connection, the configuration and the ready callback, when
  the participant name can be encoded.
\<close>

lemma run_to_ready:
  assumes "list_all (\<lambda>u. u < 256) (myUsername i)"
  shows "run (start i is_production wh)
       [Connect, Receive ''whiteboardConfig'' cfg, DocumentReady] =
     \<lparr>ident = i, production = is_production, window_size = wh,
      signaling_socket =
        \<lparr>listeners = registered 1,
         outbox = [(''joinWhiteboard'',
           JObj [(''wid'', JStr (whiteboardId i)), (''at'', JStr (accessToken i)),
                 (''windowWidthHeight'',
                  JObj [(''w'', JNum (fst wh)), (''h'', JNum (snd wh))])])]\<rparr>,
      accessDenied = [False],
      config = initFromServer cfg,
      info = info_empty\<lparr>infoAreDisplayed :=
               (if is_production then truthy (jget cfg ''displayInfoOnLoad'') else True)\<rparr>,
      readOnlyActive =
        (truthy (jget cfg ''isReadOnly'') \<or>
         is_production \<and> truthy (jget cfg ''readOnlyOnLoad'')),
      wb_calls =
        [LoadWhiteboard (whiteboardId i) (b64_encode (myUsername i))
           (lit ''./images/'' @ to_string (jget cfg ''backgroundGridImage'')),
         SetTool_mouse, RefreshCursorAppearance],
      sendFunction_set = True, ready_queue = 0,
      requests = [(subdir i @ lit ''/api/loadwhiteboard'',
                   JObj [(''wid'', JStr (whiteboardId i)), (''at'', JStr (accessToken i))])],
      awaiting = 1, resize_handlers = 1,
      window_listeners = [''dragover'', ''drop'', ''paste''],
      dom = no_alerts, uncaught = []\<rparr>"
  using assms
  by (simp add: start_def main_def client_init_def handler_defs prim_defs socket_defs
      handlers_def step_eqs initFromServer_def window_payload_def join_message_def
      connection_listeners_def btoa_def info_empty_def)

section \<open>Invariants of the session\<close>

text \<open>
  C2: In every reachable client, every drawing message handed to the transport carries
  the client's access token as property \<open>at\<close>, and the counter of messages sent equals
  the number of drawing messages handed to the transport.
\<close>

theorem sent_stamped_counted:
  assumes "reachable c"
  shows "list_all (stamped (accessToken (ident c))) (drawn c) \<and>
     nbMessagesSent (info c) = length (drawn c)"
  using reachable_sent_inv [OF assms] by (simp add: sent_inv_def)

theorem sent_stamped_counted_witness:
  "drawn (run demo_loading [LocalDraw stroke, LocalDraw stroke]) \<noteq> [] \<and>
   list_all (stamped (lit ''s3cret''))
     (drawn (run demo_loading [LocalDraw stroke, LocalDraw stroke])) \<and>
   nbMessagesSent (info (run demo_loading [LocalDraw stroke, LocalDraw stroke])) = 2"
proof -
  let ?c = "run demo_loading [LocalDraw stroke, LocalDraw stroke]"
  have "reachable ?c"
    by (intro reachable_run reachable_demo)
  from sent_stamped_counted [OF this]
  have "list_all (stamped (lit ''s3cret'')) (drawn ?c) \<and>
      nbMessagesSent (info ?c) = length (drawn ?c)"
    by (simp add: demo_identity_def del: run_Cons)
  moreover have "length (drawn ?c) = 2"
    by (simp add: drawn_def session_eval)
  ultimately show ?thesis
    by auto
qed

text \<open>
  C20: In every reachable client the counter of messages received equals the number of
  payloads the drawing surface was asked to apply.
\<close>

theorem received_counted:
  assumes "reachable c"
  shows "nbMessagesReceived (info c) = length (applied c)"
  using reachable_received_inv [OF assms] by (simp add: received_inv_def)

theorem received_counted_witness:
  "nbMessagesReceived (info (step demo_loading (Receive ''drawToWhiteboard'' stroke))) =
     length (applied (step demo_loading (Receive ''drawToWhiteboard'' stroke))) \<and>
   applied (step demo_loading (Receive ''drawToWhiteboard'' stroke)) = [stroke]"
proof -
  have "reachable (step demo_loading (Receive ''drawToWhiteboard'' stroke))"
    by (intro reachable_step reachable_demo)
  from received_counted [OF this] show ?thesis
    by (simp add: applied_def session_eval)
qed

text \<open>
  C18: The listeners accumulate. After \<open>n\<close> connections of the transport the socket holds
  the listener for \<^verbatim>\<open>connect\<close> and \<open>n\<close> copies of each of the five listeners that the
  \<^verbatim>\<open>connect\<close> listener registers; none is ever removed.
\<close>

theorem listeners_accumulate:
  assumes "reachable c"
  shows "listeners (signaling_socket c) = registered (connections c) \<and>
     length (listeners (signaling_socket c)) = 1 + 5 * connections c \<and>
     handlers ''drawToWhiteboard'' c = replicate (connections c) On_drawToWhiteboard"
proof -
  have "length (registered n) = 1 + 5 * n" for n
    by (induction n) (simp_all add: connection_listeners_def)
  with reachable_registry [OF assms] show ?thesis
    by (simp add: handlers_registered) (simp add: registry_inv_def)
qed

theorem listeners_accumulate_witness:
  "length (listeners (signaling_socket (run demo_start [Connect, Connect]))) = 11 \<and>
   handlers ''drawToWhiteboard'' (run demo_start [Connect, Connect]) =
     [On_drawToWhiteboard, On_drawToWhiteboard]"
proof -
  let ?c = "run demo_start [Connect, Connect]"
  have r: "reachable ?c"
    by (intro reachable_run reachable_demo)
  have n: "connections ?c = 2"
    by (simp add: connections_def session_eval client_init_def)
  from listeners_accumulate [OF r]
  have "length (listeners (signaling_socket ?c)) = 1 + 5 * connections ?c \<and>
      handlers ''drawToWhiteboard'' ?c = replicate (connections ?c) On_drawToWhiteboard"
    by (rule conjunct2)
  then show ?thesis
    unfolding n by (simp add: numeral_2_eq_2 del: run_Cons)
qed

text \<open>
  C19: The client has sent one \<^verbatim>\<open>joinWhiteboard\<close> message for every connection of the
  transport, each with the whiteboard identifier and the access token of the client.
\<close>

theorem join_per_connection:
  assumes "reachable c"
  shows "map (\<lambda>p. (jget p ''wid'', jget p ''at'')) (emitted ''joinWhiteboard'' c) =
     replicate (connections c) (JStr (whiteboardId (ident c)), JStr (accessToken (ident c)))"
  using reachable_join_inv [OF assms] by (simp add: join_inv_def)

theorem join_per_connection_witness:
  "map (\<lambda>p. (jget p ''wid'', jget p ''at'')) (emitted ''joinWhiteboard'' demo_loading) =
     [(JStr (lit ''MyBoard''), JStr (lit ''s3cret''))]"
proof -
  have "connections demo_loading = 1"
    by (simp add: connections_def session_eval client_init_def)
  with join_per_connection [of demo_loading] show ?thesis
    by (simp add: demo_identity_def)
qed

section \<open>Messages of the relay\<close>

text \<open>
  C3: Drawing messages of the relay are applied in the order of their arrival, each at
  the moment it arrives, once for every connection the transport has made: with one
  connection the payloads applied are the payloads received, in order.
\<close>

theorem draws_in_order:
  assumes "reachable c"
  shows "applied (run c (map (Receive ''drawToWhiteboard'') ps)) =
     applied c @ concat (map (replicate (connections c)) ps)"
  using assms by (intro applied_draws reachable_registry)

theorem draws_in_order_witness:
  "applied (run demo_loading (map (Receive ''drawToWhiteboard'') [stroke, JNull, stroke])) =
     [stroke, JNull, stroke]"
proof -
  have "connections demo_loading = 1"
    by (simp add: connections_def session_eval client_init_def)
  moreover have "applied demo_loading = []"
    by (simp add: applied_def session_eval client_init_def)
  ultimately show ?thesis
    using draws_in_order [OF reachable_demo(2), of "[stroke, JNull, stroke]"]
    by (simp del: run_Cons)
qed

text \<open>
  C4: A second \<^verbatim>\<open>wrongAccessToken\<close> message without a reconnection in between changes
  nothing: no second notice is shown.
\<close>

theorem denial_once:
  assumes "reachable c"
  shows "step (step c (Receive ''wrongAccessToken'' p)) (Receive ''wrongAccessToken'' q) =
     step c (Receive ''wrongAccessToken'' p)"
proof -
  let ?d = "c\<lparr>accessDenied := replicate (connections c) True,
       dom := ((showBasicAlert denial []) ^^ length (filter Not (accessDenied c))) (dom c)\<rparr>"
  from assms have r: "registry_inv c"
    by (rule reachable_registry)
  then have s: "step c (Receive ''wrongAccessToken'' p) = ?d"
    by (simp add: deliver_wrongAccessToken)
  have "registry_inv ?d"
    using step_registry [OF r, of "Receive ''wrongAccessToken'' p"] by (simp only: s)
  then have "step ?d (Receive ''wrongAccessToken'' q) = ?d"
    by (simp add: deliver_wrongAccessToken connections_def)
  then show ?thesis
    by (simp only: s)
qed

theorem denial_once_witness:
  "denials (run demo_loading
      [Receive ''wrongAccessToken'' JUndefined, Receive ''wrongAccessToken'' JUndefined]) = 1"
proof -
  have "denials (step demo_loading (Receive ''wrongAccessToken'' JUndefined)) = 1"
    by (simp add: denials_def denial_def session_eval client_init_def)
  with denial_once [OF reachable_demo(2), of JUndefined JUndefined] show ?thesis
    by (simp del: step.simps)
qed

text \<open>
  C14: The notice of a denied access has been shown at most once per connection of the
  transport, and when a \<^verbatim>\<open>wrongAccessToken\<close> message has been handled it has been shown
  exactly once per connection.
\<close>

theorem denial_per_connection:
  assumes "reachable c"
  shows "denials c \<le> connections c \<and>
     denials (step c (Receive ''wrongAccessToken'' p)) = connections c"
proof -
  let ?c = "step c (Receive ''wrongAccessToken'' p)"
  from assms have d: "denial_inv c"
    by (rule reachable_denial_inv)
  then have "denials c = length (filter (\<lambda>b. b) (accessDenied c))"
    unfolding denial_inv_def .
  moreover from d have "denial_inv ?c"
    by (rule step_denial_inv)
  then have "denials ?c = length (filter (\<lambda>b. b) (accessDenied ?c))"
    unfolding denial_inv_def .
  moreover from assms have "accessDenied ?c = replicate (connections c) True"
    by (intro denied_all reachable_registry)
  ultimately show ?thesis
    by (simp add: connections_def del: step.simps)
qed

theorem denial_per_connection_witness:
  "denials demo_loading = 0 \<and>
   denials (step demo_loading (Receive ''wrongAccessToken'' JUndefined)) = 1"
proof -
  have "connections demo_loading = 1"
    by (simp add: connections_def session_eval client_init_def)
  moreover have "denials demo_loading = 0"
    by (simp add: denials_def session_eval client_init_def)
  ultimately show ?thesis
    using denial_per_connection [OF reachable_demo(2), of JUndefined]
    by (simp del: step.simps)
qed


text \<open>
  C16: A drawing message that arrives while the request for the whiteboard's content is
  open is applied at once, before the content: the drawing surface is handed the live
  message first and the stored content after it.
\<close>

theorem live_event_before_snapshot:
  assumes "reachable c" and "0 < awaiting c"
  shows "wb_calls (run c [Receive ''drawToWhiteboard'' p, LoadResponse d]) =
     wb_calls c @ replicate (connections c) (HandleEventsAndData p True) @ [LoadData d]"
  using assms
  by (simp add: deliver_drawToWhiteboard reachable_registry step_eqs)

theorem live_event_before_snapshot_witness:
  "wb_calls (run demo_loading [Receive ''drawToWhiteboard'' stroke, LoadResponse JNull]) =
     [LoadWhiteboard (lit ''MyBoard'') (lit ''YW5u'') (lit ''./images/bg_grid.png''),
      SetTool_mouse, RefreshCursorAppearance,
      HandleEventsAndData stroke True, LoadData JNull]"
proof -
  have "connections demo_loading = 1" "awaiting demo_loading = 1"
    by (simp_all add: connections_def session_eval client_init_def)
  moreover have "wb_calls demo_loading =
      [LoadWhiteboard (lit ''MyBoard'') (lit ''YW5u'') (lit ''./images/bg_grid.png''),
       SetTool_mouse, RefreshCursorAppearance]"
    by (simp add: session_eval client_init_def lit_def btoa_def b64_char_def)
  ultimately show ?thesis
    using live_event_before_snapshot [OF reachable_demo(2), of stroke JNull]
    by (simp del: run_Cons)
qed

section \<open>Read-only mode, reconfiguration and exceptions\<close>

text \<open>
  C11: While read-only mode is active, no sequence of events without a run of the ready
  callback (messages of the relay, connections, local mutations, resizes, responses,
  clicks) makes the client hand a drawing message to the transport or count one, and
  read-only mode stays active.
\<close>

theorem read_only_stable:
  assumes "readOnlyActive c" and "list_all (\<lambda>e. e \<noteq> DocumentReady) es"
  shows "readOnlyActive (run c es) \<and> drawn (run c es) = drawn c \<and>
     nbMessagesSent (info (run c es)) = nbMessagesSent (info c)"
  using assms by (rule run_silent)

theorem read_only_stable_witness:
  "drawn (run (demo_loading\<lparr>readOnlyActive := True\<rparr>)
     [LocalDraw stroke, Receive ''drawToWhiteboard'' stroke, WindowResize 1 2, Connect,
      LocalDraw stroke]) = []"
proof -
  have "drawn (demo_loading\<lparr>readOnlyActive := True\<rparr>) = []"
    by (simp add: drawn_def session_eval client_init_def)
  with read_only_stable [of "demo_loading\<lparr>readOnlyActive := True\<rparr>"
      "[LocalDraw stroke, Receive ''drawToWhiteboard'' stroke, WindowResize 1 2, Connect,
        LocalDraw stroke]"]
  show ?thesis
    by (simp del: run_Cons)
qed

text \<open>
  C21: Every \<^verbatim>\<open>whiteboardConfig\<close> message replaces the configuration and initialises the
  whiteboard again, once for every connection the transport has made: that many ready
  callbacks are queued and that many times the three listeners are added to the window.
\<close>

theorem config_reinitialises:
  assumes "reachable c" and "0 < connections c"
  shows "step c (Receive ''whiteboardConfig'' p) =
     c\<lparr>config := initFromServer p,
       ready_queue := ready_queue c + connections c,
       window_listeners := window_listeners c @
         concat (replicate (connections c) [''dragover'', ''drop'', ''paste''])\<rparr>"
  using assms by (intro step_config reachable_registry)

theorem config_reinitialises_witness:
  "ready_queue (run demo_start [Connect, Connect, Receive ''whiteboardConfig'' demo_config]) = 2 \<and>
   length (window_listeners
     (run demo_start [Connect, Connect, Receive ''whiteboardConfig'' demo_config])) = 6"
proof -
  let ?c = "run demo_start [Connect, Connect]"
  have "reachable ?c"
    by (intro reachable_run reachable_demo)
  moreover have "connections ?c = 2" "ready_queue ?c = 0" "window_listeners ?c = []"
    by (simp_all add: connections_def session_eval client_init_def)
  ultimately show ?thesis
    using config_reinitialises [of ?c demo_config]
    by (simp add: run_snoc [of ?c, symmetric, simplified] numeral_2_eq_2
        del: step.simps run_Cons)
      (simp add: numeral_2_eq_2 del: step.simps)
qed

text \<open>
  C25: No callback throws when the participant name has no code unit above 255 and the
  drawing surface hands only objects to the send function: the list of uncaught
  exceptions stays as it is through every sequence of such events.
\<close>

theorem run_no_uncaught:
  assumes "list_all (\<lambda>u. u < 256) (myUsername (ident c))" and "list_all harmless es"
  shows "uncaught (run c es) = uncaught c"
  using assms
proof (induction es arbitrary: c)
  case Nil
  show ?case by simp
next
  case (Cons e es)
  from Cons.prems have "uncaught (step c e) = uncaught c"
    by (simp add: step_uncaught)
  with Cons.IH [of "step c e"] Cons.prems show ?case
    by simp
qed

theorem run_no_uncaught_witness:
  "uncaught (run demo_start
     [Connect, Receive ''whiteboardConfig'' demo_config, DocumentReady, LocalDraw stroke,
      LoadResponse JNull]) = []"
proof -
  have "list_all (\<lambda>u. u < 256) (myUsername (ident demo_start))"
    by (simp add: demo_identity_def lit_def)
  moreover have "uncaught demo_start = []"
    by (simp add: session_eval client_init_def)
  ultimately show ?thesis
    using run_no_uncaught [of demo_start
        "[Connect, Receive ''whiteboardConfig'' demo_config, DocumentReady, LocalDraw stroke,
          LoadResponse JNull]"]
    by (simp add: stroke_def del: run_Cons)
qed



end
