(* ===== verification/Sync_Refinement.thy ===== *)
theory Sync_Refinement
  imports Sync_Session
begin

text \<open>
  The session protocol in two abstractions. The first, \<open>engine\<close>, keeps of a client what
  the protocol depends on: whether access was denied, the number of connections, the
  ready callbacks queued, the requests for the content that are open, and whether the
  drawing surface is loaded; \<open>engine_step\<close> is its reaction to an event, and the client
  refines it: \<open>engine_of (step c e) = engine_step (engine_of c) e\<close>. The second is the
  machine of the specification, five phases with the transitions \<open>spec_next\<close>; every step
  of the engine keeps the phase or takes one of these transitions, so the phases along
  an execution of the client are a path of the specification's machine from
  \<open>Connecting\<close>, and \<open>AccessDenied\<close> is never left.
\<close>

section \<open>The machine of the specification\<close>

datatype phase = Connecting | AwaitingConfig | LoadingInitialState | Live | AccessDenied

text \<open>
  The channel opens; the configuration arrives; the stored content has been applied; a
  configuration that arrives in \<open>Live\<close>, as after a reconnection, starts the load again;
  a denial of access ends the session from any phase.
\<close>

inductive spec_next :: "phase \<Rightarrow> phase \<Rightarrow> bool" where
  channel_open: "spec_next Connecting AwaitingConfig"
| config_received: "spec_next AwaitingConfig LoadingInitialState"
| state_loaded: "spec_next LoadingInitialState Live"
| reinitialised: "spec_next Live LoadingInitialState"
| access_denied: "p \<noteq> AccessDenied \<Longrightarrow> spec_next p AccessDenied"

code_pred spec_next .

inductive_cases denied_nextE: "spec_next AccessDenied q"


lemma denied_terminal: "\<not> spec_next AccessDenied q"
  by (auto elim: denied_nextE)

section \<open>The engine\<close>

record engine =
  access_denied :: bool
  connected :: nat
  ready_pending :: nat
  loads_pending :: nat
  surface_loaded :: bool

definition engine_start :: engine where
  "engine_start =
     \<lparr>access_denied = False, connected = 0, ready_pending = 0, loads_pending = 0,
      surface_loaded = False\<rparr>"

text \<open>
  A connection adds one set of listeners. A configuration queues one ready callback per
  connection, a denial is noticed if there is a connection; a ready callback loads the
  drawing surface and opens a request; a response closes one.
\<close>

fun engine_step :: "engine \<Rightarrow> event \<Rightarrow> engine" where
  "engine_step g Connect = g\<lparr>connected := Suc (connected g)\<rparr>"
| "engine_step g (Receive name p) =
     (if name = ''whiteboardConfig''
      then g\<lparr>ready_pending := ready_pending g + connected g\<rparr>
      else if name = ''wrongAccessToken''
      then g\<lparr>access_denied := (access_denied g \<or> 0 < connected g)\<rparr>
      else g)"
| "engine_step g DocumentReady =
     (if ready_pending g = 0 then g
      else g\<lparr>ready_pending := ready_pending g - 1,
             loads_pending := Suc (loads_pending g),
             surface_loaded := True\<rparr>)"
| "engine_step g (LoadResponse d) = g\<lparr>loads_pending := loads_pending g - 1\<rparr>"
| "engine_step g _ = g"

text \<open>
  Access is denied once it was denied. Before that the engine is connecting until the
  transport has connected, loading while a ready callback is queued or a request is
  open, live when neither is the case and the drawing surface is loaded, and awaiting
  the configuration otherwise.
\<close>

definition phase :: "engine \<Rightarrow> phase" where
  "phase g =
     (if access_denied g then AccessDenied
      else if connected g = 0 then Connecting
      else if 0 < ready_pending g \<or> 0 < loads_pending g then LoadingInitialState
      else if surface_loaded g then Live
      else AwaitingConfig)"

text \<open>
  Nothing is queued, requested or loaded before the first connection, and a request is
  open only when the drawing surface is loaded.
\<close>

definition engine_inv :: "engine \<Rightarrow> bool" where
  "engine_inv g \<longleftrightarrow>
     (if connected g = 0
      then ready_pending g = 0 \<and> loads_pending g = 0 \<and> \<not> surface_loaded g
      else True) \<and>
     (if 0 < loads_pending g then surface_loaded g else True)"

lemma engine_inv_start [simp]: "engine_inv engine_start"
  by (simp add: engine_inv_def engine_start_def)



lemma engine_denied_stays: "access_denied g \<Longrightarrow> access_denied (engine_step g e)"
  by (cases e) auto

section \<open>The engine of a client\<close>

definition denied :: "client \<Rightarrow> bool" where
  "denied c \<longleftrightarrow> list_ex (\<lambda>b. b) (accessDenied c)"

definition engine_of :: "client \<Rightarrow> engine" where
  "engine_of c =
     \<lparr>access_denied = denied c, connected = connections c, ready_pending = ready_queue c,
      loads_pending = awaiting c, surface_loaded = sendFunction_set c\<rparr>"

definition phase_of :: "client \<Rightarrow> phase" where
  "phase_of c = phase (engine_of c)"

lemma list_ex_flags [simp]: "list_ex (\<lambda>b. b) (replicate n True) \<longleftrightarrow> 0 < n"
  by (induction n) auto

lemma denied_connected: "denied c \<Longrightarrow> 0 < connections c"
  by (cases "accessDenied c") (simp_all add: denied_def connections_def)

lemmas engine_defs = engine_of_def denied_def connections_def

lemma engine_of_listener:
  assumes "h \<in> {On_whiteboardInfoUpdate, On_drawToWhiteboard, On_refreshUserBadges}"
  shows "engine_of (run_listener h p c) = engine_of c"
  using assms by (auto simp: engine_defs listener_eqs)

lemma engine_of_deliver_other:
  assumes "registry_inv c" and "name \<noteq> ''connect''" and "name \<noteq> ''whiteboardConfig''"
    and "name \<noteq> ''wrongAccessToken''"
  shows "engine_of (deliver name p c) = engine_of c"
proof -
  have "engine_of (seq (map (\<lambda>h. run_listener h p) hs) c') = engine_of c'"
    if "set hs \<subseteq> {On_whiteboardInfoUpdate, On_drawToWhiteboard, On_refreshUserBadges}"
    for hs c'
    using that
  proof (induction hs arbitrary: c')
    case Nil
    show ?case by simp
  next
    case (Cons h hs)
    then have "engine_of (run_listener h p c') = engine_of c'"
      by (intro engine_of_listener) simp
    with Cons show ?case by simp
  qed
  moreover from assms have "set (handlers name c) \<subseteq>
      {On_whiteboardInfoUpdate, On_drawToWhiteboard, On_refreshUserBadges}"
    by (simp add: handlers_registered set_replicate_conv_if)
  ultimately show ?thesis
    by (simp add: deliver_def)
qed

lemma engine_of_config:
  assumes "registry_inv c"
  shows "engine_of (step c (Receive ''whiteboardConfig'' p)) =
     (engine_of c)\<lparr>ready_pending := ready_queue c + connections c\<rparr>"
proof (cases "connections c = 0")
  case True
  with assms show ?thesis
    by (simp add: engine_of_def deliver_def handlers_registered)
next
  case False
  with assms show ?thesis
    by (simp add: step_config engine_defs del: step.simps)
qed

lemma engine_of_wrong:
  assumes "registry_inv c"
  shows "engine_of (step c (Receive ''wrongAccessToken'' p)) =
     (engine_of c)\<lparr>access_denied := (denied c \<or> 0 < connections c)\<rparr>"
  using assms denied_connected [of c]
  by (auto simp: engine_of_def deliver_wrongAccessToken) (auto simp: denied_def connections_def)

lemma engine_refines:
  assumes "registry_inv c" and "list_all (\<lambda>u. u < 256) (myUsername (ident c))"
  shows "engine_of (step c e) = engine_step (engine_of c) e"
proof (cases e)
  case Connect
  with assms(1) show ?thesis
    by (simp add: deliver_connect on_connect_eq engine_defs)
next
  case (Receive name p)
  consider "name = ''connect''" | "name = ''whiteboardConfig''" | "name = ''wrongAccessToken''"
    | "name \<noteq> ''connect''" "name \<noteq> ''whiteboardConfig''" "name \<noteq> ''wrongAccessToken''"
    by blast
  then show ?thesis
  proof cases
    case 1
    with Receive show ?thesis by simp
  next
    case 2
    with Receive assms(1) show ?thesis
      by (simp add: engine_of_config del: step.simps) (simp add: engine_of_def)
  next
    case 3
    with Receive assms(1) show ?thesis
      by (simp add: engine_of_wrong del: step.simps) (simp add: engine_of_def)
  next
    case 4
    with Receive assms(1) show ?thesis
      by (simp add: engine_of_deliver_other)
  qed
next
  case DocumentReady
  with assms(2) show ?thesis
    by (simp add: step_eqs btoa_def engine_defs)
qed (simp_all add: step_eqs engine_defs split: sum.splits)

lemma run_refines:
  assumes "registry_inv c" and "list_all (\<lambda>u. u < 256) (myUsername (ident c))"
  shows "engine_of (run c es) = foldl engine_step (engine_of c) es"
  using assms
proof (induction es arbitrary: c)
  case Nil
  show ?case by simp
next
  case (Cons e es)
  from Cons.prems have "engine_of (run (step c e) es) = foldl engine_step (engine_of (step c e)) es"
    by (intro Cons.IH step_registry) simp_all
  with Cons.prems show ?case
    by (simp add: engine_refines del: step.simps)
qed

lemma engine_of_start [simp]: "engine_of (start i is_production wh) = engine_start"
  by (simp add: engine_defs engine_start_def start_def main_def client_init_def)



text \<open>Once a variable \<open>accessDenied\<close> is set, one stays set, whatever happens.\<close>

lemma list_ex_set_flag:
  "list_ex (\<lambda>b. b) xs \<Longrightarrow> list_ex (\<lambda>b. b) (xs[k := True])"
  by (induction xs arbitrary: k) (auto split: nat.splits)

lemma denied_listener:
  "h \<noteq> On_connect \<Longrightarrow> denied c \<Longrightarrow> denied (run_listener h p c)"
  by (cases h)
    (simp_all add: listener_eqs on_wrongAccessToken_eq denied_def list_ex_set_flag)

lemma denied_step:
  assumes "registry_inv c" and "denied c"
  shows "denied (step c e)"
proof (cases e)
  case Connect
  with assms show ?thesis
    by (simp add: deliver_connect on_connect_eq denied_def)
next
  case (Receive name p)
  show ?thesis
  proof (cases "name = ''connect''")
    case True
    with Receive assms(2) show ?thesis by simp
  next
    case False
    from assms(1) False assms(2) have "denied (deliver name p c)"
      by (rule deliver_preserves) (rule denied_listener)
    with Receive False show ?thesis by simp
  qed
next
  case DocumentReady
  with assms(2) show ?thesis
    by (simp add: step_eqs denied_def split: sum.splits)
next
  case (LocalDraw content)
  with assms(2) show ?thesis
    by (simp add: step_eqs denied_def split: sum.splits)
qed (use assms(2) in \<open>simp_all add: step_eqs denied_def\<close>)

lemma denied_run: "registry_inv c \<Longrightarrow> denied c \<Longrightarrow> denied (run c es)"
  by (induction es arbitrary: c) (simp_all add: denied_step step_registry del: step.simps)

section \<open>Refinement\<close>


lemma demo_latin1 [simp]:
  "list_all (\<lambda>u. u < 256) (myUsername (ident demo_start))"
  "list_all (\<lambda>u. u < 256) (myUsername (ident demo_loading))"
  by (simp_all add: demo_identity_def lit_def)

text \<open>
  C12: The client refines the engine. From every reachable client whose participant name
  can be encoded, the engine of the client after a sequence of events is the engine
  after the same events.
\<close>

theorem client_refines_engine:
  assumes "reachable c" and "list_all (\<lambda>u. u < 256) (myUsername (ident c))"
  shows "engine_of (run c es) = foldl engine_step (engine_of c) es"
  using assms by (intro run_refines reachable_registry)

theorem client_refines_engine_witness:
  "engine_of (run demo_start
     [Connect, Receive ''whiteboardConfig'' demo_config, DocumentReady, LoadResponse JNull]) =
   \<lparr>access_denied = False, connected = 1, ready_pending = 0, loads_pending = 0,
    surface_loaded = True\<rparr>"
proof -
  have "engine_of demo_start = engine_start"
    by (simp add: demo_start_def)
  with client_refines_engine [OF reachable_demo(1) demo_latin1(1),
      of "[Connect, Receive ''whiteboardConfig'' demo_config, DocumentReady, LoadResponse JNull]"]
  show ?thesis
    by (simp add: engine_start_def del: run_Cons)
qed



text \<open>
  C13: Denied access is final: once the client is in phase \<open>AccessDenied\<close> no sequence of
  events takes it to another phase.
\<close>

theorem access_denied_terminal:
  assumes "reachable c" and "phase_of c = AccessDenied"
  shows "phase_of (run c es) = AccessDenied"
proof -
  from assms(2) have "denied c"
    by (simp add: phase_of_def phase_def engine_of_def split: if_splits)
  with assms(1) have "denied (run c es)"
    by (intro denied_run reachable_registry)
  then show ?thesis
    by (simp add: phase_of_def phase_def engine_of_def)
qed

theorem access_denied_terminal_witness:
  "phase_of (step demo_loading (Receive ''wrongAccessToken'' JUndefined)) = AccessDenied \<and>
   phase_of (run (step demo_loading (Receive ''wrongAccessToken'' JUndefined))
     [Connect, Receive ''whiteboardConfig'' demo_config, DocumentReady, LoadResponse JNull]) =
     AccessDenied"
proof -
  let ?c = "step demo_loading (Receive ''wrongAccessToken'' JUndefined)"
  have r: "reachable ?c"
    by (intro reachable_step reachable_demo)
  have p: "phase_of ?c = AccessDenied"
    by (simp add: phase_of_def phase_def engine_defs session_eval client_init_def)
  from access_denied_terminal [OF r p] p show ?thesis
    by (simp del: run_Cons step.simps)
qed

text \<open>
  C17: Denied access does not stop the client. In phase \<open>AccessDenied\<close> a drawing message
  of the relay is still applied, once per connection, and a local mutation is still
  sent when the drawing surface was loaded and read-only mode is off.
\<close>

theorem denied_still_active:
  assumes "reachable c" and "phase_of c = AccessDenied"
    and "sendFunction_set c" and "\<not> readOnlyActive c"
  shows "0 < connections c \<and>
     applied (step c (Receive ''drawToWhiteboard'' p)) = applied c @ replicate (connections c) p \<and>
     length (drawn (step c (LocalDraw (JObj kvs)))) = Suc (length (drawn c))"
proof -
  from assms(2) have "denied c"
    by (simp add: phase_of_def phase_def engine_of_def split: if_splits)
  then have "0 < connections c"
    by (rule denied_connected)
  moreover from assms(1) have "applied (step c (Receive ''drawToWhiteboard'' p)) =
      applied c @ replicate (connections c) p"
    by (intro applied_draw reachable_registry)
  moreover from assms(3,4) have "length (drawn (step c (LocalDraw (JObj kvs)))) =
      Suc (length (drawn c))"
    by (simp add: step_eqs drawn_def emitted_def)
  ultimately show ?thesis
    by simp
qed

theorem denied_still_active_witness:
  "length (drawn (run demo_loading
     [Receive ''wrongAccessToken'' JUndefined, LocalDraw stroke])) = 1"
proof -
  let ?c = "step demo_loading (Receive ''wrongAccessToken'' JUndefined)"
  have "reachable ?c"
    by (intro reachable_step reachable_demo)
  moreover have "phase_of ?c = AccessDenied"
    by (simp add: phase_of_def phase_def engine_defs session_eval client_init_def)
  moreover have "sendFunction_set ?c" "\<not> readOnlyActive ?c" "drawn ?c = []"
    by (simp_all add: drawn_def session_eval client_init_def)
  ultimately show ?thesis
    using denied_still_active
      [of ?c JNull "[(''t'', JStr (lit ''stroke'')), (''d'', JNum 7)]"]
    by (simp add: stroke_def del: step.simps)
qed

end
