(* ===== verification/Spec2Isabelle.thy ===== *)
theory Spec2Isabelle
  imports WB_Prelude JS_String Url_Params Session_Identity Base64 Services Socket Alerts
    Client_State Sync_Engine Sync_Session Sync_Refinement
begin

text \<open>
  Verification development for the browser client of the collaborative whiteboard,
  \<^verbatim>\<open>src/src/js/main.js\<close>.

  \<^bold>\<open>The program.\<close> \<^verbatim>\<open>main.js\<close> is the entry module of the client. When the module is
  evaluated it reads the query string, chooses the whiteboard identifier, the participant
  name and the access token, and may assign \<^verbatim>\<open>window.location.search\<close>, which reloads the
  page (lines 15 to 46). \<^verbatim>\<open>main\<close> opens a socket.io channel to the relay and registers a
  listener for \<^verbatim>\<open>connect\<close>; that listener registers five more listeners and sends
  \<^verbatim>\<open>joinWhiteboard\<close> (lines 48 to 88). When the relay pushes \<^verbatim>\<open>whiteboardConfig\<close> the client
  stores the configuration and calls \<^verbatim>\<open>initWhiteboard\<close>, whose ready callback loads the
  drawing surface, hands it the send function, requests the stored content over HTTP,
  wires the toolbar and sets the read-only mode (lines 143 to 578). Local mutations of the
  drawing surface reach the relay through the send function only; messages of the relay
  reach the drawing surface through the listeners. \<^verbatim>\<open>showBasicAlert\<close> (lines 90 to 141) puts
  a notice dialog into the document.

  \<^bold>\<open>The theories.\<close>

  \<^item> \<open>WB_Prelude\<close>: strings as lists of UTF-16 code units with \<open>lit\<close> for literals of the
    source, the datatype \<open>jsval\<close> of values that cross the socket with property read and
    write, truthiness and string conversion, the exceptions \<open>js_error\<close>, results of
    computations that can throw as \<open>js_error + 'a\<close> with \<open>on_result\<close> and \<open>and_then\<close>, and
    \<open>seq\<close>, which runs the statements of a handler in order.
  \<^item> \<open>JS_String\<close>: \<open>encodeURIComponent\<close>, \<open>unescape\<close> and the regular-expression filter of
    line 29, composed as \<open>normalizeId\<close>; \<open>substring\<close>. The lemmas show that line 29 is the
    filter on well-formed strings and throws \<open>URIError\<close> on the others.
  \<^item> \<open>Url_Params\<close>: \<open>URLSearchParams\<close> as an association list with \<open>get\<close>, \<open>set\<close> and
    \<open>delete\<close>, and the tests \<open>if (v)\<close> and \<open>v || d\<close> on their results.
  \<^item> \<open>Session_Identity\<close>: module start-up as the function \<open>boot\<close> from the inputs of a page
    load (\<open>launch_env\<close>: the parsed query, the value of \<^verbatim>\<open>uuidv4()\<close>, the rendering of
    \<^verbatim>\<open>Math.random()\<close>, the sub-directory) to the constants of the module (\<open>identity\<close>) and
    the last value assigned to the location, in the order of lines 15 to 45. The lemmas
    show which identifier is chosen, that the address bar and the client agree, and that
    the reloads end.
  \<^item> \<open>Base64\<close>: \<open>btoa\<close>, applied to the participant name on line 149.
  \<^item> \<open>Services\<close>: \<open>ConfigService\<close>, \<open>InfoService\<close> and \<open>ReadOnlyService\<close>. Their code is
    imported by \<^verbatim>\<open>main.js\<close> and is not among the sources; they are modelled from the
    specification, one definition for each method that \<^verbatim>\<open>main.js\<close> calls.
  \<^item> \<open>Socket\<close>: the channel as \<^verbatim>\<open>main.js\<close> uses it, with the type of listeners as a
    parameter: \<open>sock_on\<close> appends a listener, \<open>sock_emit\<close> appends to the list of
    messages handed to the transport.
  \<^item> \<open>Alerts\<close>: \<open>showBasicAlert\<close> with the merging of options and the callbacks of the
    Ok button, the close button and the timer; the type of the \<open>onOkClick\<close> callback is
    a parameter. The lemmas show that the dialogs keep numbers of their own, what a click
    removes, and that a dismissed dialog's timer does nothing.
  \<^item> \<open>Client_State\<close>: the record \<open>client\<close> (the constants, the socket with its listeners,
    one cell per closure variable \<open>accessDenied\<close>, the three services, the dialogs, the
    callbacks that are queued, and the observable effects: calls on the drawing surface,
    HTTP requests, uncaught exceptions), the datatype \<open>listener\<close> of the closures given to
    the socket, and the datatype \<open>event\<close> of what can happen to the client.
  \<^item> \<open>Sync_Engine\<close>: one definition for each function and callback of lines 48 to 88,
    143 to 175, 447 to 484 and 545, named as in the source (\<open>main\<close>, \<open>on_connect\<close>,
    \<open>on_whiteboardConfig\<close>, \<open>on_drawToWhiteboard\<close>, \<open>on_wrongAccessToken\<close>,
    \<open>initWhiteboard\<close>, \<open>whiteboard_ready\<close>, \<open>sendFunction\<close>, \<open>on_resize\<close>, ...); \<open>deliver\<close>
    gives an arriving message to the listeners registered under its name, \<open>step\<close> is the
    reaction of the client to one event and \<open>run\<close> to a list of events. Each handler has
    a lemma that states it as one record update (\<open>listener_eqs\<close>, \<open>step_eqs\<close>); the
    invariant \<open>registry_inv\<close> says which listeners the socket holds after \<open>n\<close>
    connections. The claims of this theory are about single calls: the send function on
    every branch, the ready callback, the resize handler.
  \<^item> \<open>Sync_Session\<close>: the inductive set \<open>reachable\<close> of clients, the invariants proved by
    rule induction over it (messages sent are stamped and counted, messages received are
    counted, one join per connection, one notice per connection, well-formed dialogs),
    and the behaviour over sequences of events: delivery in order of arrival, the second
    \<^verbatim>\<open>wrongAccessToken\<close>, reconnection, read-only mode across interleavings, absence of
    uncaught exceptions.
  \<^item> \<open>Sync_Refinement\<close>: the contract of the protocol core. The record \<open>engine\<close> keeps of a
    client what the protocol depends on and \<open>engine_step\<close> is its reaction to an event;
    the client refines it (\<open>engine_of (step c e) = engine_step (engine_of c) e\<close>). The
    machine of the specification, the phases \<open>Connecting\<close>, \<open>AwaitingConfig\<close>,
    \<open>LoadingInitialState\<close>, \<open>Live\<close> and \<open>AccessDenied\<close> with the transitions \<open>spec_next\<close>, is
    simulated by the engine: every step keeps the phase or takes a transition.
  \<^item> This theory: a property that spans start-up and the session.

  \<^bold>\<open>How the model corresponds to the code.\<close>

  \<^item> A handler of the source is a function \<open>client \<Rightarrow> client\<close>, or
    \<open>client \<Rightarrow> js_error + client\<close> when a statement of it can throw; the statements are
    composed with \<open>seq\<close> in the order of the source. An exception that leaves a callback
    is appended to \<open>uncaught\<close> and the statements after the throwing one do not run.
  \<^item> Effects on collaborators are logs: \<open>outbox\<close> of the socket, \<open>wb_calls\<close> for the drawing
    surface, \<open>requests\<close> for HTTP, \<open>shown\<close> for dialogs. No handler reads a log.
  \<^item> The socket gives an arriving event to the listeners that are registered when it
    arrives, in registration order; \<^verbatim>\<open>connect\<close> is raised by the transport only (event
    \<open>Connect\<close>), on the first connection and on every reconnection.
  \<^item> jQuery runs a ready callback later than the call that queued it, the oldest first:
    \<open>initWhiteboard\<close> increments \<open>ready_queue\<close> and the event \<open>DocumentReady\<close> runs one.
    HTTP responses arrive as \<open>LoadResponse\<close>, in the order of the requests.
  \<^item> \<^verbatim>\<open>process.env.NODE_ENV === "production"\<close> is the field \<open>production\<close>, fixed at build
    time; the size of the window is the field \<open>window_size\<close>, changed by \<open>WindowResize\<close>.
  \<^item> An assignment to \<^verbatim>\<open>window.location.search\<close> does not stop the script; the browser
    navigates to the last value assigned. \<open>boot\<close> returns that value, and the next page
    load is \<open>boot\<close> on the new query.
  \<^item> The flag of \<open>ReadOnlyService\<close> before the first ready callback cannot be observed:
    the send function exists only after a ready callback, which sets the flag
    (\<open>setup_read_only_flag\<close>).

  \<^bold>\<open>Totality.\<close> Every definition is a total function given by structural recursion or by
  \<open>fun\<close> with a termination proof found automatically (\<open>dec_nat\<close>, \<open>unescape\<close>,
  \<open>encodeURIComponent\<close>, \<open>b64_encode\<close>); no fuel is used. The only loop of the modelled code
  that could fail to end is the sequence of page reloads of start-up;
  \<open>Session_Identity.boot_settles\<close> shows that it ends after at most two reloads. Executions
  of the client are finite lists of events; the invariants hold for every list.

  \<^bold>\<open>Not modelled.\<close> The wiring of the toolbar, of drag and drop, of the colour picker and of
  the keyboard (lines 176 to 445), the upload of images and the rendering of PDF pages
  (lines 269 to 437 and 486 to 577) and the page title (lines 39 to 43) are not modelled
  yet; of these only the registration of the window listeners is part of \<open>initWhiteboard\<close>.
  The drawing surface, the key bindings and the third-party libraries are collaborators
  whose code is not among the sources; the markup string of a dialog is not built.
\<close>

section \<open>From the address bar to a read-only session\<close>

text \<open>
  C10: A page load whose start-up does not throw, followed by a connection, a
  configuration that says the whiteboard is read-only and the ready callback: the client
  joins once, under the normalised identifier, and whatever the drawing surface hands
  to the send function afterwards, nothing is emitted as a drawing message.
\<close>

theorem read_only_session:
  assumes "outcome (boot e) = Inr i"
    and "list_all (\<lambda>u. u < 256) (myUsername i)"
    and "truthy (jget cfg ''isReadOnly'')"
  shows "drawn (run (start i pr wh)
           ([Connect, Receive ''whiteboardConfig'' cfg, DocumentReady] @
            map LocalDraw contents)) = [] \<and>
     map (\<lambda>p. jget p ''wid'')
       (emitted ''joinWhiteboard''
         (run (start i pr wh) [Connect, Receive ''whiteboardConfig'' cfg, DocumentReady])) =
       [JStr (strip_non_id (raw_id e))]"
proof -
  let ?c = "run (start i pr wh) [Connect, Receive ''whiteboardConfig'' cfg, DocumentReady]"
  note ready = run_to_ready [OF assms(2), of pr wh cfg]
  from assms(3) have "readOnlyActive ?c" and "drawn ?c = []"
    by (simp_all add: ready drawn_def emitted_def sent_def del: run_Cons)
  moreover have "list_all (\<lambda>e. e \<noteq> DocumentReady) (map LocalDraw contents)"
    by (simp add: list_all_iff)
  ultimately have "drawn (run ?c (map LocalDraw contents)) = []"
    using run_silent [of ?c "map LocalDraw contents"] by simp
  moreover have "map (\<lambda>p. jget p ''wid'') (emitted ''joinWhiteboard'' ?c) =
      [JStr (whiteboardId i)]"
    by (simp add: ready emitted_def sent_def del: run_Cons)
  moreover from assms(1) have "whiteboardId i = strip_non_id (raw_id e)"
    by (simp add: boot_outcome)
  ultimately show ?thesis
    unfolding run_append by (simp del: step.simps run_Cons)
qed

theorem read_only_session_witness:
  "outcome (boot (demo_env [(lit ''whiteboardid'', lit ''My Board!!'')])) =
     Inr \<lparr>whiteboardId = lit ''MyBoard'', myUsername = lit ''unknown7351'',
          accessToken = [], subdir = []\<rparr> \<and>
   drawn (run (start \<lparr>whiteboardId = lit ''MyBoard'', myUsername = lit ''unknown7351'',
                      accessToken = [], subdir = []\<rparr> True (800, 600))
           ([Connect, Receive ''whiteboardConfig'' (JObj [(''isReadOnly'', JBool True)]),
             DocumentReady] @ map LocalDraw [stroke, stroke])) = []"
proof -
  let ?e = "demo_env [(lit ''whiteboardid'', lit ''My Board!!'')]"
  let ?i = "\<lparr>whiteboardId = lit ''MyBoard'', myUsername = lit ''unknown7351'',
      accessToken = [], subdir = []\<rparr>"
  have o: "outcome (boot ?e) = Inr ?i"
    by (simp add: boot_eval demo_env_def)
  have u: "list_all (\<lambda>u. u < 256) (myUsername ?i)"
    by (simp add: lit_def)
  have t: "truthy (jget (JObj [(''isReadOnly'', JBool True)]) ''isReadOnly'')"
    by simp
  from read_only_session [OF o u t, of True "(800, 600)" "[stroke, stroke]"] o
  show ?thesis
    by (simp del: run_Cons run_append)
qed

end
